theory Spec2Isabelle
  imports Complex_Main
begin

section \<open>Python values and exceptions\<close>

text \<open>
  The alert documents, the query bodies and the HTTP payloads of the program are Python
  values built from JSON. A dict is an association list read with \<open>map_of\<close>, so the
  first binding of a key is the dict's value for it.
\<close>

datatype json =
    JNull
  | JBool bool
  | JInt int
  | JFloat real
  | JStr string
  | JList "json list"
  | JDict "(string \<times> json) list"

text \<open>
  Every exception the modelled code can raise is a subclass of Python's \<open>Exception\<close>.
  The argument is the text \<open>str(e)\<close> is built from; \<open>LibError\<close> stands for any
  other \<open>Exception\<close> a library call raises (transport errors of the HTTP, Elasticsearch
  and OpenAI clients, \<open>OSError\<close> of the log file). \<open>UnicodeEncodeError\<close> is what
  \<open>print\<close> raises when standard output cannot encode a character of the line.
\<close>

datatype exn =
    KeyError string
  | AttributeError string
  | TypeError string
  | IndexError string
  | ValueError string
  | HTTPError string
  | UnicodeEncodeError string
  | LibError string

definition sq :: string where
  "sq = [CHR 0x27]"

definition nl :: string where
  "nl = [CHR 0x0A]"

fun exn_str :: "exn \<Rightarrow> string" where
  "exn_str (KeyError k) = sq @ k @ sq"
| "exn_str (AttributeError m) = m"
| "exn_str (TypeError m) = m"
| "exn_str (IndexError m) = m"
| "exn_str (ValueError m) = m"
| "exn_str (HTTPError m) = m"
| "exn_str (UnicodeEncodeError m) = m"
| "exn_str (LibError m) = m"

definition exn_bind :: "exn + 'a \<Rightarrow> ('a \<Rightarrow> exn + 'b) \<Rightarrow> exn + 'b" where
  "exn_bind m f = (case m of Inl e \<Rightarrow> Inl e | Inr v \<Rightarrow> f v)"

fun py_type_name :: "json \<Rightarrow> string" where
  "py_type_name JNull = ''NoneType''"
| "py_type_name (JBool b) = ''bool''"
| "py_type_name (JInt i) = ''int''"
| "py_type_name (JFloat r) = ''float''"
| "py_type_name (JStr s) = ''str''"
| "py_type_name (JList xs) = ''list''"
| "py_type_name (JDict kvs) = ''dict''"

text \<open>\<open>obj.get(key, default)\<close>: only a dict has the method.\<close>

definition dict_get :: "json \<Rightarrow> string \<Rightarrow> json \<Rightarrow> exn + json" where
  "dict_get obj key dflt =
     (case obj of
        JDict kvs \<Rightarrow> Inr (case map_of kvs key of Some v \<Rightarrow> v | None \<Rightarrow> dflt)
      | _ \<Rightarrow> Inl (AttributeError
                (sq @ py_type_name obj @ sq @ '' object has no attribute '' @ sq @ ''get'' @ sq)))"

text \<open>\<open>obj[key]\<close> with a string key.\<close>

definition dict_index :: "json \<Rightarrow> string \<Rightarrow> exn + json" where
  "dict_index obj key =
     (case obj of
        JDict kvs \<Rightarrow> (case map_of kvs key of Some v \<Rightarrow> Inr v | None \<Rightarrow> Inl (KeyError key))
      | JStr s \<Rightarrow> Inl (TypeError ''string indices must be integers'')
      | JList xs \<Rightarrow> Inl (TypeError ''list indices must be integers or slices, not str'')
      | _ \<Rightarrow> Inl (TypeError (sq @ py_type_name obj @ sq @ '' object is not subscriptable'')))"

text \<open>Python truthiness of an \<open>Optional[str]\<close> argument: \<open>None\<close> and \<open>""\<close> are false.\<close>

fun truthy :: "string option \<Rightarrow> bool" where
  "truthy None = False"
| "truthy (Some s) = (s \<noteq> [])"

text \<open>\<open>str(n)\<close> for the length of a list: the decimal digits of a natural number.\<close>

function string_of_nat :: "nat \<Rightarrow> string" where
  "string_of_nat n =
     (if n < 10 then [''0123456789'' ! n]
      else string_of_nat (n div 10) @ [''0123456789'' ! (n mod 10)])"
  by pat_completeness auto
termination
  by (relation "measure id") auto

declare string_of_nat.simps [simp del]

definition string_of_int :: "int \<Rightarrow> string" where
  "string_of_int i =
     (if i < 0 then ''-'' @ string_of_nat (nat (- i)) else string_of_nat (nat i))"


section \<open>Connector construction\<close>

text \<open>
  \<open>ElasticsearchConnector.__init__\<close> (connectors/elasticsearch.py). The optional
  arguments \<open>api_key\<close>, \<open>username\<close> and \<open>password\<close> default to \<open>None\<close>.
  The connector keeps the client it builds. \<open>new_client\<close> is the library's
  constructor \<open>Elasticsearch(hosts=..., verify_certs=..., **auth)\<close>: it opens no
  connection, so it is a pure function, but it raises on a host it cannot parse (a URL
  without scheme or port).
\<close>

datatype es_auth = Api_Key string | Basic_Auth string string

record elasticsearch_client =
  hosts :: "string list"
  verify_certs :: bool
  es_auth :: es_auth

definition ElasticsearchConnector_init ::
  "(string list \<Rightarrow> bool \<Rightarrow> es_auth \<Rightarrow> exn + elasticsearch_client)
     \<Rightarrow> string \<Rightarrow> string option \<Rightarrow> string option \<Rightarrow> string option \<Rightarrow> bool
     \<Rightarrow> exn + elasticsearch_client" where
  "ElasticsearchConnector_init new_client host api_key username password verify_ssl =
     (if truthy api_key then
        new_client [host] verify_ssl (Api_Key (the api_key))
      else if truthy username \<and> truthy password then
        new_client [host] verify_ssl (Basic_Auth (the username) (the password))
      else Inl (ValueError ''Either API key or username/password must be provided''))"

text \<open>
  \<open>KibanaConnector.__init__\<close> (connectors/kibana.py). The attribute \<open>auth\<close> is set
  only on the username/password branch; \<open>kb_auth\<close> is \<open>getattr(self, 'auth', None)\<close>.
\<close>

record kibana_connector =
  base_url :: string
  kb_space :: string
  kb_verify_ssl :: bool
  kb_headers :: "(string \<times> string) list"
  kb_auth :: "(string \<times> string) option"
  api_endpoint :: string

definition rstrip_slash :: "string \<Rightarrow> string" where
  "rstrip_slash s = rev (dropWhile (\<lambda>c. c = CHR ''/'') (rev s))"

definition kibana_endpoint :: "string \<Rightarrow> string \<Rightarrow> string" where
  "kibana_endpoint url space =
     (if space \<noteq> ''default'' then url @ ''/s/'' @ space @ ''/api'' else url @ ''/api'')"

definition KibanaConnector_init ::
  "string \<Rightarrow> string \<Rightarrow> string option \<Rightarrow> string option \<Rightarrow> string option \<Rightarrow> bool
     \<Rightarrow> exn + kibana_connector" where
  "KibanaConnector_init host space api_key username password verify_ssl =
     (let url = rstrip_slash host;
          headers = [(''kbn-xsrf'', ''true'')]
      in if truthy api_key then
           Inr \<lparr>base_url = url, kb_space = space, kb_verify_ssl = verify_ssl,
                kb_headers = headers @ [(''Authorization'', ''ApiKey '' @ the api_key)],
                kb_auth = None, api_endpoint = kibana_endpoint url space\<rparr>
         else if truthy username \<and> truthy password then
           Inr \<lparr>base_url = url, kb_space = space, kb_verify_ssl = verify_ssl,
                kb_headers = headers,
                kb_auth = Some (the username, the password),
                api_endpoint = kibana_endpoint url space\<rparr>
         else Inl (ValueError ''Either API key or username/password must be provided''))"

text \<open>
  \<open>AISecurityAnalyst.__init__\<close> (connectors/ai.py). \<open>model\<close> and
  \<open>temperature\<close> are keyword arguments with defaults: \<open>None\<close> here is an argument
  the caller left out.
\<close>

record ai_security_analyst =
  client_api_key :: string
  model :: string
  temperature :: real
  log_file :: string

definition AISecurityAnalyst_init ::
  "string \<Rightarrow> string option \<Rightarrow> real option \<Rightarrow> ai_security_analyst" where
  "AISecurityAnalyst_init openai_api_key model_arg temperature_arg =
     \<lparr>client_api_key = openai_api_key,
      model = (case model_arg of None \<Rightarrow> ''gpt-4o'' | Some m \<Rightarrow> m),
      temperature = (case temperature_arg of None \<Rightarrow> 3 / 10 | Some t \<Rightarrow> t),
      log_file = ''logs.txt''\<rparr>"

section \<open>The external world\<close>

text \<open>
  The Elasticsearch store, the Kibana HTTP API, the OpenAI service, the clock, the
  log file and standard output are outside the program. They are a state \<open>'w\<close> and the operations of an
  environment on it; each operation may raise. \<open>py_repr\<close>, \<open>yaml_dump\<close> and
  \<open>json_dumps\<close> are the library functions \<open>format(v, '')\<close> on a value that is not a
  string, \<open>yaml.dump(v, default_flow_style=False)\<close> and \<open>json.dumps\<close>; they are
  total on JSON values and read no state.
\<close>

record hit =
  hit_id :: string
  hit_source :: json

record es_response =
  scroll_id :: string
  hits :: "hit list"

record search_request =
  sr_index :: string
  sr_query :: json
  sr_scroll :: string
  sr_size :: nat
  sr_sort :: json

record chat_request =
  cr_model :: string
  cr_messages :: "(string \<times> string) list"
  cr_temperature :: real

text \<open>
  \<open>choices\<close> holds \<open>choice.message.content\<close> of every choice (the content is
  \<open>Optional[str]\<close>); \<open>dump\<close> is \<open>response.model_dump()\<close>.
\<close>

record chat_response =
  choices :: "string option list"
  dump :: json

text \<open>
  \<open>http_error\<close> is the message of the \<open>HTTPError\<close> that \<open>raise_for_status\<close>
  builds for a 4xx or 5xx status; \<open>json_result\<close> is what \<open>response.json()\<close> returns
  or raises.
\<close>

record http_request =
  rq_url :: string
  rq_headers :: "(string \<times> string) list"
  rq_params :: "(string \<times> json) list"
  rq_json :: "json option"
  rq_verify :: bool
  rq_auth :: "(string \<times> string) option"

record http_response =
  status_code :: nat
  http_error :: string
  json_result :: "exn + json"

record 'w env =
  py_repr :: "json \<Rightarrow> string"
  yaml_dump :: "json \<Rightarrow> string"
  json_dumps :: "json \<Rightarrow> string"
  now_isoformat :: "'w \<Rightarrow> string"
  date_from_isoformat :: "int \<Rightarrow> 'w \<Rightarrow> string"
  file_append :: "string \<Rightarrow> string \<Rightarrow> 'w \<Rightarrow> (exn + unit) \<times> 'w"
  stdout_write :: "string \<Rightarrow> 'w \<Rightarrow> (exn + unit) \<times> 'w"
  chat_create :: "string \<Rightarrow> chat_request \<Rightarrow> 'w \<Rightarrow> (exn + chat_response) \<times> 'w"
  http_get :: "http_request \<Rightarrow> 'w \<Rightarrow> (exn + http_response) \<times> 'w"
  http_patch :: "http_request \<Rightarrow> 'w \<Rightarrow> (exn + http_response) \<times> 'w"
  es_search :: "elasticsearch_client \<Rightarrow> search_request \<Rightarrow> 'w \<Rightarrow> (exn + es_response) \<times> 'w"
  es_scroll :: "elasticsearch_client \<Rightarrow> string \<Rightarrow> string \<Rightarrow> 'w \<Rightarrow> (exn + es_response) \<times> 'w"
  es_clear_scroll :: "elasticsearch_client \<Rightarrow> string \<Rightarrow> 'w \<Rightarrow> (exn + unit) \<times> 'w"

text \<open>
  The program state is the external state together with the trace of the calls the
  program has made to the outside, in order. A call to a service or to the log file is
  recorded when it is made, whether it returns or raises. \<open>Print\<close> is a line written
  to standard output: it is recorded when \<open>print\<close> has written it, and a \<open>print\<close>
  that raises writes nothing.
\<close>

datatype event =
    Search search_request
  | Scroll string string
  | ClearScroll string
  | ChatCreate chat_request
  | HttpGet http_request
  | HttpPatch http_request
  | FileAppend string string
  | Print string

record 'w state =
  trace :: "event list"
  world :: "'w"

definition emit :: "event \<Rightarrow> 'w \<Rightarrow> 'w state \<Rightarrow> 'w state" where
  "emit ev w s = \<lparr>trace = trace s @ [ev], world = w\<rparr>"

definition py_print :: "'w env \<Rightarrow> string \<Rightarrow> 'w state \<Rightarrow> (exn + unit) \<times> 'w state" where
  "py_print env line s =
     (case stdout_write env line (world s) of
        (Inl e, w) \<Rightarrow> (Inl e, \<lparr>trace = trace s, world = w\<rparr>)
      | (Inr u, w) \<Rightarrow> (Inr (), emit (Print line) w s))"

definition se_bind ::
  "('s \<Rightarrow> (exn + 'a) \<times> 's) \<Rightarrow> ('a \<Rightarrow> 's \<Rightarrow> (exn + 'b) \<times> 's) \<Rightarrow> 's \<Rightarrow> (exn + 'b) \<times> 's" where
  "se_bind m f s = (case m s of (Inl e, s') \<Rightarrow> (Inl e, s') | (Inr v, s') \<Rightarrow> f v s')"

definition se_pure :: "exn + 'a \<Rightarrow> 's \<Rightarrow> (exn + 'a) \<times> 's" where
  "se_pure r s = (r, s)"

section \<open>Prompt construction\<close>

text \<open>
  \<open>AISecurityAnalyst._create_signal_prompt\<close> (connectors/ai.py). The lookups run in
  the order of the source: the six locals first, then the expressions of the f-string
  from top to bottom. Formatting a value and \<open>yaml.dump\<close> never raise, so the text is
  rendered from the extracted values once all of them are there.
\<close>

record prompt_fields =
  rule_name :: json
  severity :: json
  risk_score :: json
  description :: json
  alert_timestamp :: json
  process_name :: json
  command_line :: json
  working_directory :: json
  parent_name :: json
  parent_command_line :: json
  user_name :: json
  user_domain :: json
  hostname :: json
  os_name :: json
  threat :: json

text \<open>
  A value in an f-string: a string is copied, \<open>None\<close>, a bool and an int are written
  as Python writes them, and any other value (a float, a list, a dict) goes through
  \<open>py_repr\<close>.
\<close>

definition py_format :: "'w env \<Rightarrow> json \<Rightarrow> string" where
  "py_format env v =
     (case v of
        JStr s \<Rightarrow> s
      | JNull \<Rightarrow> ''None''
      | JBool b \<Rightarrow> (if b then ''True'' else ''False'')
      | JInt i \<Rightarrow> string_of_int i
      | _ \<Rightarrow> py_repr env v)"

definition ind8 :: string where
  "ind8 = replicate 8 (CHR '' '')"

definition render_prompt :: "'w env \<Rightarrow> prompt_fields \<Rightarrow> string" where
  "render_prompt env f =
     ''Analyze the following security alert and provide a triage assessment:'' @ nl
     @ nl
     @ ind8 @ ''Alert Details:'' @ nl
     @ ind8 @ ''- Rule Name: '' @ py_format env (rule_name f) @ nl
     @ ind8 @ ''- Severity: '' @ py_format env (severity f) @ nl
     @ ind8 @ ''- Risk Score: '' @ py_format env (risk_score f) @ nl
     @ ind8 @ ''- Description: '' @ py_format env (description f) @ nl
     @ ind8 @ ''- Timestamp: '' @ py_format env (alert_timestamp f) @ nl
     @ nl
     @ ind8 @ ''Process Information:'' @ nl
     @ ind8 @ ''- Name: '' @ py_format env (process_name f) @ nl
     @ ind8 @ ''- Command Line: '' @ py_format env (command_line f) @ nl
     @ ind8 @ ''- Working Directory: '' @ py_format env (working_directory f) @ nl
     @ ind8 @ ''- Parent Process: '' @ py_format env (parent_name f) @ nl
     @ ind8 @ ''- Parent Command Line: '' @ py_format env (parent_command_line f) @ nl
     @ nl
     @ ind8 @ ''User Context:'' @ nl
     @ ind8 @ ''- Username: '' @ py_format env (user_name f) @ nl
     @ ind8 @ ''- Domain: '' @ py_format env (user_domain f) @ nl
     @ nl
     @ ind8 @ ''Host Information:'' @ nl
     @ ind8 @ ''- Hostname: '' @ py_format env (hostname f) @ nl
     @ ind8 @ ''- OS: '' @ py_format env (os_name f) @ nl
     @ nl
     @ ind8 @ ''MITRE ATT&CK:'' @ nl
     @ ind8 @ yaml_dump env (threat f) @ nl
     @ nl
     @ ind8 @ ''Please provide:'' @ nl
     @ ind8 @ ''1. Severity Assessment (Critical/High/Medium/Low) with short explanation'' @ nl
     @ ind8 @ ''2. Short description of the rule and its purpose'' @ nl
     @ ind8 @ ''3. Short summary of host and user context in a table'' @ nl
     @ ind8 @ ''4. Detailed analysis of the alert with highlighting key fields and explaining what that key data mean (like explaining process with arguments, files and registry)'' @ nl
     @ ind8 @ ''5. Recommended immediate actions'' @ nl
     @ nl
     @ ind8 @ ''Use markdown formatting for the response.'' @ nl
     @ ind8"

definition na :: json where
  "na = JStr ''N/A''"

definition empty_dict :: json where
  "empty_dict = JDict []"

definition create_signal_prompt ::
  "'w env \<Rightarrow> ai_security_analyst \<Rightarrow> json \<Rightarrow> exn + string" where
  "create_signal_prompt env self signal =
     exn_bind (exn_bind (dict_get signal ''source'' empty_dict)
                 (\<lambda>src. dict_get src ''process'' empty_dict)) (\<lambda>process.
     exn_bind (dict_get process ''parent'' empty_dict) (\<lambda>parent_process.
     exn_bind (exn_bind (exn_bind (dict_get signal ''source'' empty_dict)
                 (\<lambda>src. dict_get src ''kibana'' empty_dict))
                 (\<lambda>kib. dict_get kib ''alert'' empty_dict)) (\<lambda>kibana_alert.
     exn_bind (exn_bind (dict_get kibana_alert ''rule'' empty_dict)
                 (\<lambda>rule. dict_get rule ''parameters'' empty_dict)) (\<lambda>rule_params.
     exn_bind (exn_bind (dict_get signal ''source'' empty_dict)
                 (\<lambda>src. dict_get src ''host'' empty_dict)) (\<lambda>host.
     exn_bind (exn_bind (dict_get signal ''source'' empty_dict)
                 (\<lambda>src. dict_get src ''user'' empty_dict)) (\<lambda>user.
     exn_bind (exn_bind (dict_get kibana_alert ''rule'' empty_dict)
                 (\<lambda>rule. dict_get rule ''name'' na)) (\<lambda>f1.
     exn_bind (dict_get rule_params ''severity'' na) (\<lambda>f2.
     exn_bind (dict_get rule_params ''risk_score'' na) (\<lambda>f3.
     exn_bind (dict_get rule_params ''description'' na) (\<lambda>f4.
     exn_bind (exn_bind (dict_get signal ''source'' empty_dict)
                 (\<lambda>src. dict_get src ''@timestamp'' na)) (\<lambda>f5.
     exn_bind (dict_get process ''name'' na) (\<lambda>f6.
     exn_bind (dict_get process ''command_line'' na) (\<lambda>f7.
     exn_bind (dict_get process ''working_directory'' na) (\<lambda>f8.
     exn_bind (dict_get parent_process ''name'' na) (\<lambda>f9.
     exn_bind (dict_get parent_process ''command_line'' na) (\<lambda>f10.
     exn_bind (dict_get user ''name'' na) (\<lambda>f11.
     exn_bind (dict_get user ''domain'' na) (\<lambda>f12.
     exn_bind (dict_get host ''hostname'' na) (\<lambda>f13.
     exn_bind (exn_bind (dict_get host ''os'' empty_dict)
                 (\<lambda>os. dict_get os ''name'' na)) (\<lambda>f14.
     exn_bind (dict_get rule_params ''threat'' (JList [])) (\<lambda>f15.
     Inr (render_prompt env
            \<lparr>rule_name = f1, severity = f2, risk_score = f3, description = f4,
             alert_timestamp = f5, process_name = f6, command_line = f7,
             working_directory = f8, parent_name = f9, parent_command_line = f10,
             user_name = f11, user_domain = f12, hostname = f13, os_name = f14,
             threat = f15\<rparr>))))))))))))))))))))))"

section \<open>The analyst client\<close>

text \<open>\<open>AISecurityAnalyst._log_debug\<close>: one NDJSON line appended to the log file.\<close>

definition log_debug ::
  "'w env \<Rightarrow> ai_security_analyst \<Rightarrow> string \<Rightarrow> json \<Rightarrow> 'w state \<Rightarrow> (exn + unit) \<times> 'w state" where
  "log_debug env self message data s =
     (let log_entry = JDict [(''timestamp'', JStr (now_isoformat env (world s))),
                             (''message'', JStr message),
                             (''data'', data)];
          line = json_dumps env log_entry @ nl
      in case file_append env (log_file self) line (world s) of
           (r, w) \<Rightarrow> (r, emit (FileAppend (log_file self) line) w s))"

definition system_instruction :: string where
  "system_instruction =
     ''You are an expert security analyst. Analyze the security alert and provide concise, actionable insights.''"

definition analysis_request :: "ai_security_analyst \<Rightarrow> string \<Rightarrow> chat_request" where
  "analysis_request self prompt =
     \<lparr>cr_model = model self,
      cr_messages = [(''system'', system_instruction), (''user'', prompt)],
      cr_temperature = temperature self\<rparr>"

definition completions_create ::
  "'w env \<Rightarrow> ai_security_analyst \<Rightarrow> chat_request \<Rightarrow> 'w state
     \<Rightarrow> (exn + chat_response) \<times> 'w state" where
  "completions_create env self req s =
     (case chat_create env (client_api_key self) req (world s) of
        (r, w) \<Rightarrow> (r, emit (ChatCreate req) w s))"

text \<open>\<open>response.choices[0].message.content\<close>\<close>

definition first_choice :: "chat_response \<Rightarrow> exn + string option" where
  "first_choice response =
     (case choices response of
        [] \<Rightarrow> Inl (IndexError ''list index out of range'')
      | c # _ \<Rightarrow> Inr c)"

record analysis_result =
  signal_id :: json
  analysis :: "string option"
  model_used :: string
  timestamp :: json

text \<open>\<open>AISecurityAnalyst.analyze_signal\<close>\<close>

definition analyze_signal ::
  "'w env \<Rightarrow> ai_security_analyst \<Rightarrow> json \<Rightarrow> 'w state \<Rightarrow> (exn + analysis_result) \<times> 'w state" where
  "analyze_signal env self signal =
     se_bind (se_pure (create_signal_prompt env self signal)) (\<lambda>prompt.
     se_bind (log_debug env self ''Input Signal:'' signal) (\<lambda>_.
     se_bind (log_debug env self ''Generated Prompt:'' (JStr prompt)) (\<lambda>_.
     se_bind (completions_create env self (analysis_request self prompt)) (\<lambda>response.
     se_bind (log_debug env self ''AI Response:'' (dump response)) (\<lambda>_.
     se_pure
       (exn_bind (dict_index signal ''id'') (\<lambda>sid.
        exn_bind (first_choice response) (\<lambda>content.
        exn_bind (exn_bind (dict_index signal ''source'')
                    (\<lambda>src. dict_get src ''@timestamp'' JNull)) (\<lambda>ts.
        Inr \<lparr>signal_id = sid, analysis = content, model_used = model self,
             timestamp = ts\<rparr>)))))))))"

section \<open>The Kibana connector\<close>

definition raise_for_status :: "http_response \<Rightarrow> exn + unit" where
  "raise_for_status response =
     (if 400 \<le> status_code response \<and> status_code response < 600
      then Inl (HTTPError (http_error response)) else Inr ())"

definition requests_patch ::
  "'w env \<Rightarrow> http_request \<Rightarrow> 'w state \<Rightarrow> (exn + http_response) \<times> 'w state" where
  "requests_patch env req s =
     (case http_patch env req (world s) of (r, w) \<Rightarrow> (r, emit (HttpPatch req) w s))"

definition requests_get ::
  "'w env \<Rightarrow> http_request \<Rightarrow> 'w state \<Rightarrow> (exn + http_response) \<times> 'w state" where
  "requests_get env req s =
     (case http_get env req (world s) of (r, w) \<Rightarrow> (r, emit (HttpGet req) w s))"

definition note_payload :: "json \<Rightarrow> string \<Rightarrow> string \<Rightarrow> json" where
  "note_payload event_id note_text timeline_id =
     JDict [(''note'', JDict [(''timelineId'', JStr timeline_id),
                              (''eventId'', event_id),
                              (''note'', JStr note_text)])]"

definition note_request :: "kibana_connector \<Rightarrow> json \<Rightarrow> string \<Rightarrow> string \<Rightarrow> http_request" where
  "note_request self event_id note_text timeline_id =
     \<lparr>rq_url = api_endpoint self @ ''/note'',
      rq_headers = kb_headers self,
      rq_params = [],
      rq_json = Some (note_payload event_id note_text timeline_id),
      rq_verify = kb_verify_ssl self,
      rq_auth = kb_auth self\<rparr>"

text \<open>\<open>KibanaConnector.add_note\<close>\<close>

definition add_note ::
  "'w env \<Rightarrow> kibana_connector \<Rightarrow> json \<Rightarrow> string \<Rightarrow> string \<Rightarrow> 'w state
     \<Rightarrow> (exn + json) \<times> 'w state" where
  "add_note env self event_id note_text timeline_id =
     se_bind (requests_patch env (note_request self event_id note_text timeline_id)) (\<lambda>response.
     se_pure (exn_bind (raise_for_status response) (\<lambda>_. json_result response)))"

text \<open>
  \<open>all_rules.extend(rules)\<close> and \<open>len(rules)\<close> on the value of \<open>data['data']\<close>:
  a list gives its elements, a dict its keys, a string its characters; nothing else is
  iterable. The keys of a dict are the first occurrences in its association list.
\<close>

definition dict_keys :: "(string \<times> json) list \<Rightarrow> string list" where
  "dict_keys kvs = rev (remdups (rev (map fst kvs)))"

definition py_elements :: "json \<Rightarrow> exn + json list" where
  "py_elements v =
     (case v of
        JList xs \<Rightarrow> Inr xs
      | JDict kvs \<Rightarrow> Inr (map JStr (dict_keys kvs))
      | JStr s \<Rightarrow> Inr (map (\<lambda>c. JStr [c]) s)
      | _ \<Rightarrow> Inl (TypeError (sq @ py_type_name v @ sq @ '' object is not iterable'')))"

definition rules_request :: "kibana_connector \<Rightarrow> nat \<Rightarrow> nat \<Rightarrow> http_request" where
  "rules_request self page per_page =
     \<lparr>rq_url = api_endpoint self @ ''/detection_engine/rules/_find'',
      rq_headers = kb_headers self,
      rq_params = [(''page'', JInt (int page)), (''per_page'', JInt (int per_page))],
      rq_json = None,
      rq_verify = kb_verify_ssl self,
      rq_auth = kb_auth self\<rparr>"

text \<open>
  The \<open>while True\<close> loop of \<open>KibanaConnector.get_all_detection_rules\<close>, with
  \<open>per_page = 100\<close>. It ends when a page is shorter than \<open>per_page\<close> or a call
  raises; \<open>None\<close> is a run that never ends.
\<close>

partial_function (option) rules_loop ::
  "'w env \<Rightarrow> kibana_connector \<Rightarrow> json list \<Rightarrow> nat \<Rightarrow> 'w state
     \<Rightarrow> ((exn + json list) \<times> 'w state) option" where
  "rules_loop env self all_rules page s =
     (case requests_get env (rules_request self page 100) s of
        (Inl e, s1) \<Rightarrow> Some (Inl e, s1)
      | (Inr response, s1) \<Rightarrow>
          (case exn_bind (raise_for_status response) (\<lambda>_.
                exn_bind (json_result response) (\<lambda>data.
                exn_bind (dict_index data ''data'') (\<lambda>rules. py_elements rules))) of
             Inl e \<Rightarrow> Some (Inl e, s1)
           | Inr rules \<Rightarrow>
               if length rules < 100 then Some (Inr (all_rules @ rules), s1)
               else rules_loop env self (all_rules @ rules) (page + 1) s1))"

definition get_all_detection_rules ::
  "'w env \<Rightarrow> kibana_connector \<Rightarrow> 'w state \<Rightarrow> ((exn + json list) \<times> 'w state) option" where
  "get_all_detection_rules env self s = rules_loop env self [] 1 s"

section \<open>The Elasticsearch connector\<close>

definition client_search ::
  "'w env \<Rightarrow> elasticsearch_client \<Rightarrow> search_request \<Rightarrow> 'w state
     \<Rightarrow> (exn + es_response) \<times> 'w state" where
  "client_search env client req s =
     (case es_search env client req (world s) of (r, w) \<Rightarrow> (r, emit (Search req) w s))"

definition client_scroll ::
  "'w env \<Rightarrow> elasticsearch_client \<Rightarrow> string \<Rightarrow> string \<Rightarrow> 'w state
     \<Rightarrow> (exn + es_response) \<times> 'w state" where
  "client_scroll env client sid keep s =
     (case es_scroll env client sid keep (world s) of (r, w) \<Rightarrow> (r, emit (Scroll sid keep) w s))"

definition client_clear_scroll ::
  "'w env \<Rightarrow> elasticsearch_client \<Rightarrow> string \<Rightarrow> 'w state \<Rightarrow> (exn + unit) \<times> 'w state" where
  "client_clear_scroll env client sid s =
     (case es_clear_scroll env client sid (world s) of (r, w) \<Rightarrow> (r, emit (ClearScroll sid) w s))"

text \<open>\<open>{'id': hit['_id'], 'source': hit['_source']}\<close>\<close>

definition signal_of_hit :: "hit \<Rightarrow> json" where
  "signal_of_hit h = JDict [(''id'', JStr (hit_id h)), (''source'', hit_source h)]"

definition signals_query :: "string \<Rightarrow> json" where
  "signals_query date_from =
     JDict [(''bool'', JDict [(''must'',
       JList [JDict [(''range'', JDict [(''@timestamp'', JDict [(''gte'', JStr date_from)])])]])])]"

definition signals_request :: "string \<Rightarrow> string \<Rightarrow> search_request" where
  "signals_request space date_from =
     \<lparr>sr_index = ''.internal.alerts-security.alerts-'' @ space @ ''-*'',
      sr_query = signals_query date_from,
      sr_scroll = ''5m'',
      sr_size = 1000,
      sr_sort = JList [JDict [(''@timestamp'', JDict [(''order'', JStr ''desc'')])]]\<rparr>"

text \<open>
  The \<open>while len(resp['hits']['hits'])\<close> loop of \<open>get_signals\<close>: as long as the last
  page has a hit, ask for the next one, always with the scroll id of the first response.
  \<open>None\<close> is a run that never ends (a store that never returns an empty page).
\<close>

partial_function (option) scroll_loop ::
  "'w env \<Rightarrow> elasticsearch_client \<Rightarrow> string \<Rightarrow> es_response \<Rightarrow> json list \<Rightarrow> 'w state
     \<Rightarrow> ((exn + json list) \<times> 'w state) option" where
  "scroll_loop env client sid resp results s =
     (if length (hits resp) \<noteq> 0 then
        (case client_scroll env client sid ''5m'' s of
           (Inl e, s1) \<Rightarrow> Some (Inl e, s1)
         | (Inr resp1, s1) \<Rightarrow>
             scroll_loop env client sid resp1 (results @ map signal_of_hit (hits resp1)) s1)
      else Some (Inr results, s))"

text \<open>\<open>ElasticsearchConnector.get_signals\<close>\<close>

definition get_signals ::
  "'w env \<Rightarrow> elasticsearch_client \<Rightarrow> string \<Rightarrow> int \<Rightarrow> 'w state
     \<Rightarrow> ((exn + json list) \<times> 'w state) option" where
  "get_signals env client space days s =
     (let date_from = date_from_isoformat env days (world s)
      in case client_search env client (signals_request space date_from) s of
           (Inl e, s1) \<Rightarrow> Some (Inl e, s1)
         | (Inr resp, s1) \<Rightarrow>
             (case scroll_loop env client (scroll_id resp) resp
                     ([] @ map signal_of_hit (hits resp)) s1 of
                None \<Rightarrow> None
              | Some (Inl e, s2) \<Rightarrow> Some (Inl e, s2)
              | Some (Inr results, s2) \<Rightarrow>
                  (case client_clear_scroll env client (scroll_id resp) s2 of
                     (Inl e, s3) \<Rightarrow> Some (Inl e, s3)
                   | (Inr u, s3) \<Rightarrow> Some (Inr results, s3))))"

section \<open>The pipeline\<close>

definition check_mark :: string where
  "check_mark = [CHR 0xE2, CHR 0x9C, CHR 0x93]"

definition cross_mark :: string where
  "cross_mark = [CHR 0xE2, CHR 0x9C, CHR 0x97]"

definition ind12 :: string where
  "ind12 = replicate 12 (CHR '' '')"

definition format_content :: "string option \<Rightarrow> string" where
  "format_content c = (case c of None \<Rightarrow> ''None'' | Some t \<Rightarrow> t)"

definition note_text :: "'w env \<Rightarrow> analysis_result \<Rightarrow> json \<Rightarrow> string" where
  "note_text env a sid =
     nl
     @ ind12 @ ''AI Security Analysis'' @ ind12 @ nl
     @ nl
     @ ind12 @ format_content (analysis a) @ nl
     @ nl
     @ ind12 @ ''Signal ID: '' @ py_format env sid @ nl
     @ ind12 @ ''Analysis Timestamp: '' @ py_format env (timestamp a) @ nl
     @ ind12 @ ''Model Used: '' @ model_used a @ nl
     @ ind12"

definition success_line :: "'w env \<Rightarrow> json \<Rightarrow> string" where
  "success_line env sid = check_mark @ '' Processed signal '' @ py_format env sid"

definition failure_line :: "'w env \<Rightarrow> json \<Rightarrow> exn \<Rightarrow> string" where
  "failure_line env sid e =
     cross_mark @ '' Error processing signal '' @ py_format env sid @ '': '' @ exn_str e"

text \<open>
  The body of the \<open>try\<close> in \<open>main\<close> for one signal: analysis, note text, note
  write, success marker. The \<open>print\<close> of the marker is inside the \<open>try\<close>.
\<close>

definition try_signal ::
  "'w env \<Rightarrow> kibana_connector \<Rightarrow> ai_security_analyst \<Rightarrow> json \<Rightarrow> 'w state
     \<Rightarrow> (exn + unit) \<times> 'w state" where
  "try_signal env kibana ai_analyst signal =
     se_bind (analyze_signal env ai_analyst signal) (\<lambda>a.
     se_bind (se_pure (dict_index signal ''id'')) (\<lambda>sid.
     se_bind (se_pure (dict_index signal ''id'')) (\<lambda>event_id.
     se_bind (add_note env kibana event_id (note_text env a sid) '''') (\<lambda>_.
     se_bind (se_pure (dict_index signal ''id'')) (\<lambda>sid1.
     py_print env (success_line env sid1))))))"

text \<open>
  One iteration of the \<open>for\<close> loop: the \<open>try\<close> and its \<open>except Exception\<close>
  handler. The handler formats \<open>signal['id']\<close> and prints outside any \<open>try\<close>, so an
  exception of either leaves the loop.
\<close>

definition process_signal ::
  "'w env \<Rightarrow> kibana_connector \<Rightarrow> ai_security_analyst \<Rightarrow> json \<Rightarrow> 'w state
     \<Rightarrow> (exn + unit) \<times> 'w state" where
  "process_signal env kibana ai_analyst signal s =
     (case try_signal env kibana ai_analyst signal s of
        (Inr u, s1) \<Rightarrow> (Inr (), s1)
      | (Inl e, s1) \<Rightarrow>
          (case dict_index signal ''id'' of
             Inl e1 \<Rightarrow> (Inl e1, s1)
           | Inr sid \<Rightarrow> py_print env (failure_line env sid e) s1))"

fun process_signals ::
  "'w env \<Rightarrow> kibana_connector \<Rightarrow> ai_security_analyst \<Rightarrow> json list \<Rightarrow> 'w state
     \<Rightarrow> (exn + unit) \<times> 'w state" where
  "process_signals env kibana ai_analyst [] s = (Inr (), s)"
| "process_signals env kibana ai_analyst (signal # rest) s =
     (case process_signal env kibana ai_analyst signal s of
        (Inl e, s1) \<Rightarrow> (Inl e, s1)
      | (Inr u, s1) \<Rightarrow> process_signals env kibana ai_analyst rest s1)"

text \<open>
  \<open>main\<close> (main.py). The three connectors are the module's globals, built before
  \<open>main\<close> runs; here they are arguments.
\<close>

definition main ::
  "'w env \<Rightarrow> kibana_connector \<Rightarrow> elasticsearch_client \<Rightarrow> ai_security_analyst \<Rightarrow> 'w state
     \<Rightarrow> ((exn + unit) \<times> 'w state) option" where
  "main env kibana elastic ai_analyst s =
     (case get_all_detection_rules env kibana s of
        None \<Rightarrow> None
      | Some (Inl e, s1) \<Rightarrow> Some (Inl e, s1)
      | Some (Inr rules, s1) \<Rightarrow>
          (case py_print env (''Found '' @ string_of_nat (length rules) @ '' rules'') s1 of
             (Inl e, s2) \<Rightarrow> Some (Inl e, s2)
           | (Inr u, s2) \<Rightarrow>
               (case get_signals env elastic ''soc'' 30 s2 of
                  None \<Rightarrow> None
                | Some (Inl e, s3) \<Rightarrow> Some (Inl e, s3)
                | Some (Inr signals, s3) \<Rightarrow>
                    (case py_print env (''Found '' @ string_of_nat (length signals)
                                          @ '' signals'') s3 of
                       (Inl e, s4) \<Rightarrow> Some (Inl e, s4)
                     | (Inr u, s4) \<Rightarrow>
                         Some (process_signals env kibana ai_analyst signals s4)))))"

section \<open>The Run Summary of the specification\<close>

text \<open>
  This definition follows the words of the specification (sections 3, 4.5 and 9), not
  the code: the Run Summary is built by a fold over the fetched alert records, in order.
  For each record the Analyst Client is run on the record (it builds the prompt first)
  and then the Annotation Sink, keyed by the record's id; an error raised at either
  stage is a failure entry with the record's id and the error, otherwise the record is a
  success entry. The entry is then reported, and the next record starts from the state
  the report left.
\<close>

datatype outcome = Annotated json | Failed json exn

fun outcome_line :: "'w env \<Rightarrow> outcome \<Rightarrow> string" where
  "outcome_line env (Annotated i) = success_line env i"
| "outcome_line env (Failed i e) = failure_line env i e"

fun spec_run_summary ::
  "'w env \<Rightarrow> kibana_connector \<Rightarrow> ai_security_analyst \<Rightarrow> hit list \<Rightarrow> 'w state
     \<Rightarrow> outcome list" where
  "spec_run_summary env kibana ai_analyst [] s = []"
| "spec_run_summary env kibana ai_analyst (h # hs) s =
     (case analyze_signal env ai_analyst (signal_of_hit h) s of
        (Inl e, s1) \<Rightarrow>
          Failed (JStr (hit_id h)) e
            # spec_run_summary env kibana ai_analyst hs
                (snd (py_print env (failure_line env (JStr (hit_id h)) e) s1))
      | (Inr a, s1) \<Rightarrow>
          (case add_note env kibana (JStr (hit_id h))
                  (note_text env a (JStr (hit_id h))) '''' s1 of
             (Inl e, s2) \<Rightarrow>
               Failed (JStr (hit_id h)) e
                 # spec_run_summary env kibana ai_analyst hs
                     (snd (py_print env (failure_line env (JStr (hit_id h)) e) s2))
           | (Inr j, s2) \<Rightarrow>
               Annotated (JStr (hit_id h))
                 # spec_run_summary env kibana ai_analyst hs
                     (snd (py_print env (success_line env (JStr (hit_id h))) s2))))"

section \<open>Observations on a trace\<close>

fun printed_lines :: "event list \<Rightarrow> string list" where
  "printed_lines [] = []"
| "printed_lines (Print l # es) = l # printed_lines es"
| "printed_lines (e # es) = printed_lines es"

fun patch_requests :: "event list \<Rightarrow> http_request list" where
  "patch_requests [] = []"
| "patch_requests (HttpPatch r # es) = r # patch_requests es"
| "patch_requests (e # es) = patch_requests es"

fun chat_requests :: "event list \<Rightarrow> chat_request list" where
  "chat_requests [] = []"
| "chat_requests (ChatCreate r # es) = r # chat_requests es"
| "chat_requests (e # es) = chat_requests es"

fun scroll_calls :: "event list \<Rightarrow> string list" where
  "scroll_calls [] = []"
| "scroll_calls (Scroll sid keep # es) = sid # scroll_calls es"
| "scroll_calls (e # es) = scroll_calls es"

fun clear_scroll_calls :: "event list \<Rightarrow> string list" where
  "clear_scroll_calls [] = []"
| "clear_scroll_calls (ClearScroll sid # es) = sid # clear_scroll_calls es"
| "clear_scroll_calls (e # es) = clear_scroll_calls es"

section \<open>Nested lookups\<close>

text \<open>
  \<open>lookup_path v [k1, ..., kn]\<close> is the value found under the keys \<open>k1\<close> to
  \<open>kn\<close> in turn, if every key is there and every value on the way is a dict.
  \<open>field_or d v path\<close> is that value, or \<open>d\<close> when there is none.
\<close>

fun lookup_path :: "json \<Rightarrow> string list \<Rightarrow> json option" where
  "lookup_path v [] = Some v"
| "lookup_path (JDict kvs) (k # ks) =
     (case map_of kvs k of Some c \<Rightarrow> lookup_path c ks | None \<Rightarrow> None)"
| "lookup_path v (k # ks) = None"

definition field_or :: "json \<Rightarrow> json \<Rightarrow> string list \<Rightarrow> json" where
  "field_or d v path = (case lookup_path v path of Some c \<Rightarrow> c | None \<Rightarrow> d)"

fun is_dict :: "json \<Rightarrow> bool" where
  "is_dict (JDict kvs) = True"
| "is_dict v = False"

text \<open>
  The paths whose value \<open>_create_signal_prompt\<close> calls \<open>.get\<close> on. A signal has
  mappings on its paths when the signal is a dict and, at each of these paths, there is
  either nothing or a dict.
\<close>

definition mapping_paths :: "string list list" where
  "mapping_paths =
     [[''source''],
      [''source'', ''process''],
      [''source'', ''process'', ''parent''],
      [''source'', ''kibana''],
      [''source'', ''kibana'', ''alert''],
      [''source'', ''kibana'', ''alert'', ''rule''],
      [''source'', ''kibana'', ''alert'', ''rule'', ''parameters''],
      [''source'', ''host''],
      [''source'', ''host'', ''os''],
      [''source'', ''user'']]"

definition mappings_ok :: "json \<Rightarrow> bool" where
  "mappings_ok signal =
     (is_dict signal \<and> list_all (\<lambda>p. is_dict (field_or empty_dict signal p)) mapping_paths)"

definition extracted_fields :: "json \<Rightarrow> prompt_fields" where
  "extracted_fields signal =
     \<lparr>rule_name = field_or na signal [''source'', ''kibana'', ''alert'', ''rule'', ''name''],
      severity = field_or na signal
        [''source'', ''kibana'', ''alert'', ''rule'', ''parameters'', ''severity''],
      risk_score = field_or na signal
        [''source'', ''kibana'', ''alert'', ''rule'', ''parameters'', ''risk_score''],
      description = field_or na signal
        [''source'', ''kibana'', ''alert'', ''rule'', ''parameters'', ''description''],
      alert_timestamp = field_or na signal [''source'', ''@timestamp''],
      process_name = field_or na signal [''source'', ''process'', ''name''],
      command_line = field_or na signal [''source'', ''process'', ''command_line''],
      working_directory = field_or na signal [''source'', ''process'', ''working_directory''],
      parent_name = field_or na signal [''source'', ''process'', ''parent'', ''name''],
      parent_command_line = field_or na signal
        [''source'', ''process'', ''parent'', ''command_line''],
      user_name = field_or na signal [''source'', ''user'', ''name''],
      user_domain = field_or na signal [''source'', ''user'', ''domain''],
      hostname = field_or na signal [''source'', ''host'', ''hostname''],
      os_name = field_or na signal [''source'', ''host'', ''os'', ''name''],
      threat = field_or (JList []) signal
        [''source'', ''kibana'', ''alert'', ''rule'', ''parameters'', ''threat'']\<rparr>"

section \<open>A simulated world\<close>

text \<open>
  A test double for concrete runs. The store holds the alerts that match the query,
  most recent first, and serves them in pages of the size the search asked for; a scroll
  call can be made to fail. The analysis service answers every request with the same
  narrative, except the calls listed in \<open>sim_chat_fail_at\<close> (counted from 0), which
  raise. Kibana lists its rules in one page and accepts every note. Standard output
  accepts every line in \<open>sim_env\<close>; in \<open>ascii_env\<close> it is an ASCII terminal, where
  \<open>print\<close> raises on a line with a character outside ASCII. \<open>sim_new_client\<close>
  accepts the hosts that start with \<open>http\<close>.
\<close>

record sim =
  sim_docs :: "hit list"
  sim_pending :: "hit list"
  sim_page :: nat
  sim_scrolls :: nat
  sim_scroll_fail_at :: "nat option"
  sim_chats :: nat
  sim_chat_fail_at :: "nat list"
  sim_rules :: "json list"

definition sim_search :: "elasticsearch_client \<Rightarrow> search_request \<Rightarrow> sim \<Rightarrow> (exn + es_response) \<times> sim" where
  "sim_search client req w =
     (Inr \<lparr>scroll_id = ''ctx-1'', hits = take (sr_size req) (sim_docs w)\<rparr>,
      w\<lparr>sim_pending := drop (sr_size req) (sim_docs w), sim_page := sr_size req\<rparr>)"

definition sim_scroll :: "elasticsearch_client \<Rightarrow> string \<Rightarrow> string \<Rightarrow> sim \<Rightarrow> (exn + es_response) \<times> sim" where
  "sim_scroll client sid keep w =
     (if sim_scroll_fail_at w = Some (sim_scrolls w)
      then (Inl (LibError ''ConnectionTimeout''), w\<lparr>sim_scrolls := sim_scrolls w + 1\<rparr>)
      else (Inr \<lparr>scroll_id = ''ctx-1'', hits = take (sim_page w) (sim_pending w)\<rparr>,
            w\<lparr>sim_pending := drop (sim_page w) (sim_pending w),
              sim_scrolls := sim_scrolls w + 1\<rparr>))"

definition sim_chat :: "string \<Rightarrow> chat_request \<Rightarrow> sim \<Rightarrow> (exn + chat_response) \<times> sim" where
  "sim_chat key req w =
     (if sim_chats w \<in> set (sim_chat_fail_at w)
      then Inl (LibError ''rate limit exceeded'')
      else Inr \<lparr>choices = [Some ''low risk''], dump = JDict []\<rparr>,
      w\<lparr>sim_chats := sim_chats w + 1\<rparr>)"

definition sim_env :: "sim env" where
  "sim_env =
     \<lparr>py_repr = (\<lambda>v. ''<repr>''),
      yaml_dump = (\<lambda>v. ''[]'' @ nl),
      json_dumps = (\<lambda>v. ''{}''),
      now_isoformat = (\<lambda>w. ''2024-05-01T12:00:00''),
      date_from_isoformat = (\<lambda>days w. ''2024-04-01T12:00:00''),
      file_append = (\<lambda>path line w. (Inr (), w)),
      stdout_write = (\<lambda>line w. (Inr (), w)),
      chat_create = sim_chat,
      http_get = (\<lambda>req w.
        (Inr \<lparr>status_code = 200, http_error = [],
              json_result = Inr (JDict [(''data'', JList (sim_rules w))])\<rparr>, w)),
      http_patch = (\<lambda>req w.
        (Inr \<lparr>status_code = 200, http_error = [], json_result = Inr (JDict [])\<rparr>, w)),
      es_search = sim_search,
      es_scroll = sim_scroll,
      es_clear_scroll = (\<lambda>client sid w. (Inr (), w\<lparr>sim_pending := []\<rparr>))\<rparr>"

definition ascii_stdout :: "string \<Rightarrow> sim \<Rightarrow> (exn + unit) \<times> sim" where
  "ascii_stdout line w =
     (if list_ex digit7 line
      then Inl (UnicodeEncodeError (sq @ ''ascii'' @ sq @ '' codec cannot encode characters''))
      else Inr (), w)"

definition ascii_env :: "sim env" where
  "ascii_env = sim_env\<lparr>stdout_write := ascii_stdout\<rparr>"

definition sim_new_client ::
  "string list \<Rightarrow> bool \<Rightarrow> es_auth \<Rightarrow> exn + elasticsearch_client" where
  "sim_new_client hs verify auth =
     (if list_all (\<lambda>h. take 4 h = ''http'') hs
      then Inr \<lparr>hosts = hs, verify_certs = verify, es_auth = auth\<rparr>
      else Inl (ValueError ''URL must include a scheme, host and port component''))"

definition sim_world :: "hit list \<Rightarrow> sim" where
  "sim_world ds =
     \<lparr>sim_docs = ds, sim_pending = [], sim_page = 0, sim_scrolls = 0,
      sim_scroll_fail_at = None, sim_chats = 0, sim_chat_fail_at = [], sim_rules = []\<rparr>"

definition sim_start :: "sim \<Rightarrow> sim state" where
  "sim_start w = \<lparr>trace = [], world = w\<rparr>"

definition alert :: "string \<Rightarrow> hit" where
  "alert i = \<lparr>hit_id = i, hit_source = JDict []\<rparr>"

definition sim_elastic :: elasticsearch_client where
  "sim_elastic = \<lparr>hosts = [''https://es.test:9200''], verify_certs = False,
                  es_auth = Basic_Auth ''elastic'' ''secret''\<rparr>"

definition sim_kibana :: kibana_connector where
  "sim_kibana =
     \<lparr>base_url = ''https://kb.test'', kb_space = ''soc'', kb_verify_ssl = False,
      kb_headers = [(''kbn-xsrf'', ''true'')], kb_auth = Some (''elastic'', ''secret''),
      api_endpoint = ''https://kb.test/s/soc/api''\<rparr>"

definition sim_analyst :: ai_security_analyst where
  "sim_analyst = AISecurityAnalyst_init ''sk-test'' (Some ''gpt-4o'') None"

section \<open>Lemmas on lookups and traces\<close>

lemma lookup_path_append:
  "lookup_path v (p @ q) = (case lookup_path v p of None \<Rightarrow> None | Some c \<Rightarrow> lookup_path c q)"
proof (induction v p rule: lookup_path.induct)
  case (1 v)
  then show ?case by simp
next
  case (2 kvs k ks)
  then show ?case by (simp split: option.splits)
qed simp_all

lemma dict_get_root:
  "is_dict v \<Longrightarrow> dict_get v k d = Inr (field_or d v [k])"
  by (cases v) (simp_all add: dict_get_def field_or_def split: option.splits)

lemma dict_get_path:
  assumes "is_dict (field_or empty_dict v p)"
  shows "dict_get (field_or empty_dict v p) k d = Inr (field_or d v (p @ [k]))"
proof (cases "lookup_path v p")
  case None
  then show ?thesis
    by (simp add: field_or_def lookup_path_append empty_dict_def dict_get_def)
next
  case (Some c)
  with assms have "is_dict c" by (simp add: field_or_def)
  with Some show ?thesis
    by (simp add: field_or_def lookup_path_append dict_get_root [unfolded field_or_def])
qed

lemma field_or_nest:
  assumes "is_dict (field_or empty_dict v p)"
  shows "field_or d (field_or empty_dict v p) [k] = field_or d v (p @ [k])"
  using dict_get_path [OF assms, of k d] dict_get_root [OF assms, of k d] by simp

lemma prompt_on_mappings:
  assumes "mappings_ok signal"
  shows "create_signal_prompt env self signal = Inr (render_prompt env (extracted_fields signal))"
  using assms
  by (simp add: mappings_ok_def mapping_paths_def create_signal_prompt_def exn_bind_def
      dict_get_root field_or_nest extracted_fields_def)

lemma printed_lines_append [simp]: "printed_lines (xs @ ys) = printed_lines xs @ printed_lines ys"
  by (induction xs rule: printed_lines.induct) simp_all

lemma patch_requests_append [simp]: "patch_requests (xs @ ys) = patch_requests xs @ patch_requests ys"
  by (induction xs rule: patch_requests.induct) simp_all

lemma chat_requests_append [simp]: "chat_requests (xs @ ys) = chat_requests xs @ chat_requests ys"
  by (induction xs rule: chat_requests.induct) simp_all

lemma scroll_calls_append [simp]: "scroll_calls (xs @ ys) = scroll_calls xs @ scroll_calls ys"
  by (induction xs rule: scroll_calls.induct) simp_all

lemma clear_scroll_calls_append [simp]:
  "clear_scroll_calls (xs @ ys) = clear_scroll_calls xs @ clear_scroll_calls ys"
  by (induction xs rule: clear_scroll_calls.induct) simp_all

lemma log_debug_trace:
  assumes "log_debug env self m d s = (r, s')"
  shows "\<exists>p l. trace s' = trace s @ [FileAppend p l]"
  using assms by (auto simp: log_debug_def emit_def Let_def split: prod.splits)

lemma completions_create_trace:
  assumes "completions_create env self req s = (r, s')"
  shows "trace s' = trace s @ [ChatCreate req]"
  using assms by (auto simp: completions_create_def emit_def split: prod.splits)

lemma analyze_signal_id:
  assumes "analyze_signal env self signal s = (Inr res, s')"
  shows "dict_index signal ''id'' = Inr (signal_id res)"
  using assms
  by (auto simp: analyze_signal_def se_bind_def se_pure_def exn_bind_def
      split: prod.splits sum.splits)

lemma analyze_signal_trace:
  assumes "analyze_signal env self signal s = (r, s')"
  shows "\<exists>evs. trace s' = trace s @ evs \<and> printed_lines evs = [] \<and> patch_requests evs = []
     \<and> (chat_requests evs = [] \<or>
        (\<exists>p. create_signal_prompt env self signal = Inr p \<and> chat_requests evs = [analysis_request self p]))"
  using assms
  apply (simp add: analyze_signal_def se_bind_def se_pure_def split: prod.splits sum.splits)
      apply (auto dest!: log_debug_trace completions_create_trace)
  done


lemma ceil_step:
  fixes n P :: nat
  assumes "0 < P" "0 < n"
  shows "Suc ((n - P + P - 1) div P) = (n + P - 1) div P"
proof -
  from assms obtain m where n: "n = Suc m" by (cases n) auto
  have rhs: "(n + P - 1) div P = Suc (m div P)"
    using assms n by simp
  show ?thesis
  proof (cases "P \<le> n")
    case True
    then have "n - P + P - 1 = m" using n by simp
    with rhs show ?thesis by simp
  next
    case False
    then have "n - P + P - 1 = P - 1" by simp
    moreover have "(P - 1) div P = 0" using assms by simp
    moreover have "m div P = 0" using False n by simp
    ultimately show ?thesis using rhs by simp
  qed
qed

lemma sim_client_scroll:
  assumes "sim_scroll_fail_at (world s) = None"
  shows "client_scroll sim_env c sid keep s =
     (Inr \<lparr>scroll_id = ''ctx-1'', hits = take (sim_page (world s)) (sim_pending (world s))\<rparr>,
      \<lparr>trace = trace s @ [Scroll sid keep],
       world = (world s)\<lparr>sim_pending := drop (sim_page (world s)) (sim_pending (world s)),
                         sim_scrolls := sim_scrolls (world s) + 1\<rparr>\<rparr>)"
  using assms by (simp add: client_scroll_def sim_env_def sim_scroll_def emit_def)

lemma sim_scroll_loop:
  assumes "sim_scroll_fail_at (world s) = None" and "0 < sim_page (world s)"
    and "hits resp \<noteq> []"
  shows "\<exists>s'. scroll_loop sim_env c sid resp acc s
            = Some (Inr (acc @ map signal_of_hit (sim_pending (world s))), s')
          \<and> trace s' = trace s @ replicate
               (Suc ((length (sim_pending (world s)) + sim_page (world s) - 1) div sim_page (world s)))
               (Scroll sid ''5m'')
          \<and> sim_scroll_fail_at (world s') = None"
  using assms
proof (induction "length (sim_pending (world s))" arbitrary: s resp acc rule: less_induct)
  case less
  let ?P = "sim_page (world s)"
  let ?pend = "sim_pending (world s)"
  let ?resp1 = "\<lparr>scroll_id = ''ctx-1'', hits = take ?P ?pend\<rparr>"
  let ?s1 = "\<lparr>trace = trace s @ [Scroll sid ''5m''],
       world = (world s)\<lparr>sim_pending := drop ?P ?pend, sim_scrolls := sim_scrolls (world s) + 1\<rparr>\<rparr>"
  have step: "scroll_loop sim_env c sid resp acc s
      = scroll_loop sim_env c sid ?resp1 (acc @ map signal_of_hit (hits ?resp1)) ?s1"
    using less.prems by (subst scroll_loop.simps) (simp add: sim_client_scroll)
  show ?case
  proof (cases "?pend = []")
    case True
    have "scroll_loop sim_env c sid ?resp1 (acc @ map signal_of_hit (hits ?resp1)) ?s1
        = Some (Inr acc, ?s1)"
      using True by (subst scroll_loop.simps) simp
    with step True less.prems show ?thesis by simp
  next
    case False
    have shorter: "length (sim_pending (world ?s1)) < length ?pend"
      using False less.prems(2) by simp
    have "\<exists>s'. scroll_loop sim_env c sid ?resp1 (acc @ map signal_of_hit (hits ?resp1)) ?s1
            = Some (Inr ((acc @ map signal_of_hit (hits ?resp1))
                          @ map signal_of_hit (sim_pending (world ?s1))), s')
          \<and> trace s' = trace ?s1 @ replicate
               (Suc ((length (sim_pending (world ?s1)) + sim_page (world ?s1) - 1) div sim_page (world ?s1)))
               (Scroll sid ''5m'')
          \<and> sim_scroll_fail_at (world s') = None"
      using less.hyps [OF shorter, of ?resp1 "acc @ map signal_of_hit (hits ?resp1)"]
        less.prems False by simp
    then obtain s' where
      run: "scroll_loop sim_env c sid ?resp1 (acc @ map signal_of_hit (hits ?resp1)) ?s1
            = Some (Inr ((acc @ map signal_of_hit (hits ?resp1))
                          @ map signal_of_hit (sim_pending (world ?s1))), s')"
      and tr: "trace s' = trace ?s1 @ replicate
               (Suc ((length (sim_pending (world ?s1)) + sim_page (world ?s1) - 1) div sim_page (world ?s1)))
               (Scroll sid ''5m'')"
      and nf: "sim_scroll_fail_at (world s') = None"
      by blast
    define k where
      "k = Suc ((length (sim_pending (world ?s1)) + sim_page (world ?s1) - 1) div sim_page (world ?s1))"
    have res: "(acc @ map signal_of_hit (hits ?resp1)) @ map signal_of_hit (sim_pending (world ?s1))
        = acc @ map signal_of_hit ?pend"
      by (simp add: map_append [symmetric] del: map_append)
    have cnt: "k = (length ?pend + ?P - 1) div ?P"
      unfolding k_def using ceil_step [of ?P "length ?pend"] False less.prems(2) by simp
    have "trace s' = trace ?s1 @ replicate k (Scroll sid ''5m'')"
      using tr unfolding k_def .
    then have "trace s' = trace s @ replicate (Suc k) (Scroll sid ''5m'')"
      by simp
    then have "trace s' = trace s @ replicate (Suc ((length ?pend + ?P - 1) div ?P)) (Scroll sid ''5m'')"
      unfolding cnt .
    with step run res nf show ?thesis by simp
  qed
qed

section \<open>Prompt construction: claim C4\<close>

text \<open>
  C4, as amended. For every signal that has mappings on its paths (the signal is a dict
  and each value \<open>_create_signal_prompt\<close> calls \<open>.get\<close> on is absent or a dict),
  building the prompt does not raise: it renders the fields found under the fixed paths,
  each field that is missing being \<open>"N/A"\<close> (the empty list for the technique list).
  For a signal whose source is the empty dict every field is \<open>"N/A"\<close> and the
  technique list is empty.
\<close>

theorem prompt_total_on_mappings:
  "(mappings_ok signal \<longrightarrow>
      create_signal_prompt env self signal = Inr (render_prompt env (extracted_fields signal)))
   \<and> create_signal_prompt env self (JDict [(''id'', i), (''source'', JDict [])])
       = Inr (render_prompt env
           \<lparr>rule_name = na, severity = na, risk_score = na, description = na,
            alert_timestamp = na, process_name = na, command_line = na,
            working_directory = na, parent_name = na, parent_command_line = na,
            user_name = na, user_domain = na, hostname = na, os_name = na,
            threat = JList []\<rparr>)"
proof -
  have ok: "mappings_ok (JDict [(''id'', i), (''source'', JDict [])])"
    by (simp add: mappings_ok_def mapping_paths_def field_or_def empty_dict_def)
  have "extracted_fields (JDict [(''id'', i), (''source'', JDict [])])
      = \<lparr>rule_name = na, severity = na, risk_score = na, description = na,
            alert_timestamp = na, process_name = na, command_line = na,
            working_directory = na, parent_name = na, parent_command_line = na,
            user_name = na, user_domain = na, hostname = na, os_name = na,
            threat = JList []\<rparr>"
    by (simp add: extracted_fields_def field_or_def)
  with prompt_on_mappings [OF ok] show ?thesis
    by (simp add: prompt_on_mappings)
qed

theorem prompt_total_on_mappings_witness:
  "mappings_ok (JDict [(''id'', JStr ''a1''),
        (''source'', JDict [(''process'', JDict [(''name'', JStr ''cmd.exe'')])])])
   \<and> create_signal_prompt sim_env sim_analyst (JDict [(''id'', JStr ''a1''),
        (''source'', JDict [(''process'', JDict [(''name'', JStr ''cmd.exe'')])])])
     = Inr (render_prompt sim_env
           \<lparr>rule_name = na, severity = na, risk_score = na, description = na,
            alert_timestamp = na, process_name = JStr ''cmd.exe'', command_line = na,
            working_directory = na, parent_name = na, parent_command_line = na,
            user_name = na, user_domain = na, hostname = na, os_name = na,
            threat = JList []\<rparr>)"
proof -
  let ?sig = "JDict [(''id'', JStr ''a1''),
        (''source'', JDict [(''process'', JDict [(''name'', JStr ''cmd.exe'')])])]"
  have ok: "mappings_ok ?sig"
    by (simp add: mappings_ok_def mapping_paths_def field_or_def empty_dict_def)
  show ?thesis
    using ok prompt_total_on_mappings [of ?sig sim_env sim_analyst]
    by (simp add: extracted_fields_def field_or_def)
qed

text \<open>
  C4 as stated fails: a value of the wrong shape on a path (here a string where the
  process mapping is expected) makes \<open>.get\<close> raise \<open>AttributeError\<close>.
\<close>

theorem prompt_wrong_shape_counterexample:
  "create_signal_prompt sim_env sim_analyst
     (JDict [(''id'', JStr ''a1''), (''source'', JDict [(''process'', JStr ''cmd.exe'')])])
   = Inl (AttributeError (sq @ ''str'' @ sq @ '' object has no attribute '' @ sq @ ''get'' @ sq))"
  by (simp add: create_signal_prompt_def exn_bind_def dict_get_def empty_dict_def)

section \<open>Connector construction: claim C5\<close>

text \<open>
  C5, as amended. With neither an API key nor both a username and a password (a value
  that is \<open>None\<close> or empty counts as not supplied), constructing either connector fails
  with \<open>ValueError\<close>, whatever the client library would do: the check comes before
  the client is built and before anything is sent. When an API key is supplied it is
  the scheme used, whatever the username and password are; without an API key and with
  both a username and a password, basic authentication is used. With a scheme supplied
  the Kibana connector is always constructed, and the Elasticsearch connector is what
  the client library's constructor returns for the host: the client, or the error it
  raises.
\<close>

theorem connector_init_cases:
  "(\<not> truthy ak \<and> \<not> (truthy u \<and> truthy p) \<longrightarrow>
        ElasticsearchConnector_init new_client h ak u p v
          = Inl (ValueError ''Either API key or username/password must be provided'')
        \<and> KibanaConnector_init h sp ak u p v
          = Inl (ValueError ''Either API key or username/password must be provided''))
   \<and> (truthy ak \<longrightarrow>
        ElasticsearchConnector_init new_client h ak u p v
          = new_client [h] v (Api_Key (the ak))
        \<and> (\<exists>c. KibanaConnector_init h sp ak u p v = Inr c \<and> kb_auth c = None
              \<and> map_of (kb_headers c) ''Authorization'' = Some (''ApiKey '' @ the ak)))
   \<and> (\<not> truthy ak \<and> truthy u \<and> truthy p \<longrightarrow>
        ElasticsearchConnector_init new_client h ak u p v
          = new_client [h] v (Basic_Auth (the u) (the p))
        \<and> (\<exists>c. KibanaConnector_init h sp ak u p v = Inr c
              \<and> kb_auth c = Some (the u, the p)
              \<and> map_of (kb_headers c) ''Authorization'' = None))
   \<and> ((\<exists>c. KibanaConnector_init h sp ak u p v = Inr c)
        \<longleftrightarrow> truthy ak \<or> (truthy u \<and> truthy p))
   \<and> ((\<exists>c. ElasticsearchConnector_init new_client h ak u p v = Inr c)
        \<longrightarrow> truthy ak \<or> (truthy u \<and> truthy p))"
  by (auto simp add: ElasticsearchConnector_init_def KibanaConnector_init_def Let_def)

theorem connector_init_cases_witness:
  "ElasticsearchConnector_init sim_new_client ''https://es.test:9200'' None None None True
     = Inl (ValueError ''Either API key or username/password must be provided'')
   \<and> KibanaConnector_init ''https://kb.test'' ''soc'' None (Some ''elastic'') None True
     = Inl (ValueError ''Either API key or username/password must be provided'')
   \<and> ElasticsearchConnector_init sim_new_client ''https://es.test:9200'' (Some ''key'') None None True
     = Inr \<lparr>hosts = [''https://es.test:9200''], verify_certs = True, es_auth = Api_Key ''key''\<rparr>
   \<and> ElasticsearchConnector_init sim_new_client ''es.test'' (Some ''key'') None None True
     = Inl (ValueError ''URL must include a scheme, host and port component'')
   \<and> ElasticsearchConnector_init sim_new_client ''https://es.test:9200'' None (Some ''elastic'')
       (Some ''secret'') True
     = Inr \<lparr>hosts = [''https://es.test:9200''], verify_certs = True,
            es_auth = Basic_Auth ''elastic'' ''secret''\<rparr>"
  using
    connector_init_cases [where new_client = sim_new_client and h = "''https://es.test:9200''"
      and ak = None and u = None and p = None and v = True and sp = "''soc''"]
    connector_init_cases [where new_client = sim_new_client and h = "''https://kb.test''"
      and ak = None and u = "Some ''elastic''" and p = None and v = True and sp = "''soc''"]
    connector_init_cases [where new_client = sim_new_client and h = "''https://es.test:9200''"
      and ak = "Some ''key''" and u = None and p = None and v = True and sp = "''soc''"]
    connector_init_cases [where new_client = sim_new_client and h = "''es.test''"
      and ak = "Some ''key''" and u = None and p = None and v = True and sp = "''soc''"]
    connector_init_cases [where new_client = sim_new_client and h = "''https://es.test:9200''"
      and ak = None and u = "Some ''elastic''" and p = "Some ''secret''" and v = True
      and sp = "''soc''"]
  by (simp add: sim_new_client_def)

text \<open>
  C5 as stated fails: with both schemes supplied, both constructors succeed and use the
  API key.
\<close>

theorem both_schemes_counterexample:
  "ElasticsearchConnector_init sim_new_client ''https://es.test:9200'' (Some ''key'')
       (Some ''elastic'') (Some ''secret'') True
     = Inr \<lparr>hosts = [''https://es.test:9200''], verify_certs = True, es_auth = Api_Key ''key''\<rparr>
   \<and> KibanaConnector_init ''https://kb.test'' ''soc'' (Some ''key'') (Some ''elastic'') (Some ''secret'') True
     = Inr \<lparr>base_url = ''https://kb.test'', kb_space = ''soc'', kb_verify_ssl = True,
            kb_headers = [(''kbn-xsrf'', ''true''), (''Authorization'', ''ApiKey key'')],
            kb_auth = None, api_endpoint = ''https://kb.test/s/soc/api''\<rparr>"
  by (simp add: ElasticsearchConnector_init_def KibanaConnector_init_def rstrip_slash_def
      kibana_endpoint_def sim_new_client_def)

section \<open>Lemmas on one iteration of the pipeline\<close>

lemma py_print_cases:
  assumes "py_print env line s = (r, s')"
  shows "(r = Inr () \<and> trace s' = trace s @ [Print line]) \<or> ((\<exists>e. r = Inl e) \<and> trace s' = trace s)"
  using assms by (auto simp: py_print_def emit_def split: prod.splits sum.splits)

lemma py_print_ok:
  assumes "\<forall>line w. fst (stdout_write env line w) = Inr ()"
  shows "fst (py_print env line s) = Inr ()
     \<and> trace (snd (py_print env line s)) = trace s @ [Print line]"
proof -
  obtain r w where w: "stdout_write env line (world s) = (r, w)"
    by (cases "stdout_write env line (world s)")
  with assms have "r = Inr ()" by (metis fst_conv)
  with w show ?thesis by (simp add: py_print_def emit_def)
qed

lemma add_note_trace:
  assumes "add_note env k eid txt tid s = (r, s')"
  shows "trace s' = trace s @ [HttpPatch (note_request k eid txt tid)]"
  using assms
  by (auto simp: add_note_def se_bind_def se_pure_def requests_patch_def emit_def
      split: prod.splits sum.splits)

lemma try_signal_trace:
  assumes "try_signal env k a sig s = (r, s')"
  shows "\<exists>evs. trace s' = trace s @ evs
     \<and> (case r of Inr u \<Rightarrow> (\<exists>i. dict_index sig ''id'' = Inr i \<and> printed_lines evs = [success_line env i])
                 | Inl e \<Rightarrow> printed_lines evs = [])
     \<and> (patch_requests evs = []
         \<or> (\<exists>res s1 i. analyze_signal env a sig s = (Inr res, s1)
               \<and> dict_index sig ''id'' = Inr i \<and> signal_id res = i
               \<and> patch_requests evs = [note_request k i (note_text env res i) '''']))"
proof (cases "analyze_signal env a sig s")
  case (Pair ra s1)
  from analyze_signal_trace [OF Pair] obtain evs1 where
    t1: "trace s1 = trace s @ evs1" and p1: "printed_lines evs1 = []" and q1: "patch_requests evs1 = []"
    by blast
  show ?thesis
  proof (cases ra)
    case (Inl e)
    with Pair assms have "r = Inl e" "s' = s1"
      by (auto simp: try_signal_def se_bind_def)
    with t1 p1 q1 show ?thesis by auto
  next
    case (Inr res)
    with Pair have an: "analyze_signal env a sig s = (Inr res, s1)" by simp
    from analyze_signal_id [OF an] have idx: "dict_index sig ''id'' = Inr (signal_id res)" .
    obtain rn s2 where nt: "add_note env k (signal_id res) (note_text env res (signal_id res)) '''' s1 = (rn, s2)"
      by (cases "add_note env k (signal_id res) (note_text env res (signal_id res)) '''' s1")
    from add_note_trace [OF nt] have t2:
      "trace s2 = trace s1 @ [HttpPatch (note_request k (signal_id res) (note_text env res (signal_id res)) '''')]" .
    show ?thesis
    proof (cases rn)
      case (Inl e)
      with an idx nt assms have "r = Inl e" "s' = s2"
        by (auto simp: try_signal_def se_bind_def se_pure_def)
      with t1 t2 p1 q1 an idx show ?thesis by auto
    next
      case (Inr j)
      with an idx nt assms have pr: "py_print env (success_line env (signal_id res)) s2 = (r, s')"
        by (auto simp: try_signal_def se_bind_def se_pure_def)
      from py_print_cases [OF pr] show ?thesis
      proof
        assume "r = Inr () \<and> trace s' = trace s2 @ [Print (success_line env (signal_id res))]"
        with t1 t2 p1 q1 an idx show ?thesis by auto
      next
        assume "(\<exists>e. r = Inl e) \<and> trace s' = trace s2"
        with t1 t2 p1 q1 an idx show ?thesis by auto
      qed
    qed
  qed
qed

lemma process_signal_without_id:
  assumes "dict_index sig ''id'' = Inl e0"
  shows "fst (process_signal env k a sig s) = Inl e0"
proof (cases "try_signal env k a sig s")
  case (Pair rt s1)
  have "\<exists>e. rt = Inl e"
  proof (cases "analyze_signal env a sig s")
    case an: (Pair ra s2)
    show ?thesis
    proof (cases ra)
      case (Inl e)
      with an Pair show ?thesis by (auto simp: try_signal_def se_bind_def)
    next
      case (Inr res)
      with an analyze_signal_id [of env a sig s res s2] assms show ?thesis by simp
    qed
  qed
  with Pair assms show ?thesis by (auto simp: process_signal_def)
qed

lemma process_signals_append:
  "process_signals env k a (xs @ ys) s =
     (case process_signals env k a xs s of
        (Inl e, s1) \<Rightarrow> (Inl e, s1)
      | (Inr u, s1) \<Rightarrow> process_signals env k a ys s1)"
  by (induction xs arbitrary: s) (auto split: prod.splits sum.splits)

lemma alert_id: "dict_index (signal_of_hit h) ''id'' = Inr (JStr (hit_id h))"
  by (simp add: signal_of_hit_def dict_index_def)

lemma process_signal_notes:
  assumes "process_signal env k a sig s = (r, s')"
  shows "\<exists>evs. trace s' = trace s @ evs
     \<and> (patch_requests evs = []
         \<or> (\<exists>res s1 i. analyze_signal env a sig s = (Inr res, s1)
               \<and> dict_index sig ''id'' = Inr i \<and> signal_id res = i
               \<and> patch_requests evs = [note_request k i (note_text env res i) '''']))"
proof (cases "try_signal env k a sig s")
  case (Pair rt s1)
  from try_signal_trace [OF Pair] obtain evs where
    t: "trace s1 = trace s @ evs"
    and q: "patch_requests evs = []
         \<or> (\<exists>res s1 i. analyze_signal env a sig s = (Inr res, s1)
               \<and> dict_index sig ''id'' = Inr i \<and> signal_id res = i
               \<and> patch_requests evs = [note_request k i (note_text env res i) ''''])"
    by blast
  have "trace s' = trace s1 \<or> (\<exists>l. trace s' = trace s1 @ [Print l])"
  proof (cases rt)
    case (Inr u)
    with Pair assms show ?thesis by (simp add: process_signal_def)
  next
    case (Inl e)
    show ?thesis
    proof (cases "dict_index sig ''id''")
      case el: (Inl e1)
      with Pair Inl assms show ?thesis by (simp add: process_signal_def)
    next
      case (Inr sid)
      with Pair Inl assms have "py_print env (failure_line env sid e) s1 = (r, s')"
        by (simp add: process_signal_def)
      from py_print_cases [OF this] show ?thesis by blast
    qed
  qed
  then show ?thesis
  proof
    assume "trace s' = trace s1"
    with t q show ?thesis by metis
  next
    assume "\<exists>l. trace s' = trace s1 @ [Print l]"
    then obtain l where "trace s' = trace s1 @ [Print l]" by blast
    with t have "trace s' = trace s @ (evs @ [Print l])" by simp
    moreover have "patch_requests (evs @ [Print l]) = patch_requests evs" by simp
    ultimately show ?thesis using q by metis
  qed
qed

text \<open>
  One iteration on a record as \<open>get_signals\<close> builds it, when standard output accepts
  every line: the iteration ends normally, in the state left by the report of the stage
  that failed, or of the success.
\<close>

lemma process_signal_stages:
  assumes ok: "\<forall>line w. fst (stdout_write env line w) = Inr ()"
  shows "process_signal env k a (signal_of_hit h) s =
     (Inr (),
      (case analyze_signal env a (signal_of_hit h) s of
         (Inl e, s1) \<Rightarrow> snd (py_print env (failure_line env (JStr (hit_id h)) e) s1)
       | (Inr res, s1) \<Rightarrow>
           (case add_note env k (JStr (hit_id h)) (note_text env res (JStr (hit_id h))) '''' s1 of
              (Inl e, s2) \<Rightarrow> snd (py_print env (failure_line env (JStr (hit_id h)) e) s2)
            | (Inr j, s2) \<Rightarrow> snd (py_print env (success_line env (JStr (hit_id h))) s2))))"
proof -
  have pr: "\<And>line st. py_print env line st = (Inr (), snd (py_print env line st))"
    using py_print_ok [OF ok] by (metis prod.collapse)
  obtain ra s1 where an: "analyze_signal env a (signal_of_hit h) s = (ra, s1)"
    by (cases "analyze_signal env a (signal_of_hit h) s")
  show ?thesis
  proof (cases ra)
    case (Inl e)
    with an have "try_signal env k a (signal_of_hit h) s = (Inl e, s1)"
      by (simp add: try_signal_def se_bind_def)
    with an Inl pr [of "failure_line env (JStr (hit_id h)) e" s1] show ?thesis
      by (simp add: process_signal_def alert_id)
  next
    case (Inr res)
    obtain rn s2 where nt:
      "add_note env k (JStr (hit_id h)) (note_text env res (JStr (hit_id h))) '''' s1 = (rn, s2)"
      by (cases "add_note env k (JStr (hit_id h)) (note_text env res (JStr (hit_id h))) '''' s1")
    show ?thesis
    proof (cases rn)
      case (Inl e)
      with an Inr nt have "try_signal env k a (signal_of_hit h) s = (Inl e, s2)"
        by (simp add: try_signal_def se_bind_def se_pure_def alert_id)
      with an Inr nt Inl pr [of "failure_line env (JStr (hit_id h)) e" s2] show ?thesis
        by (simp add: process_signal_def alert_id)
    next
      case rn: (Inr j)
      with an Inr nt pr [of "success_line env (JStr (hit_id h))" s2]
      have "try_signal env k a (signal_of_hit h) s
          = (Inr (), snd (py_print env (success_line env (JStr (hit_id h))) s2))"
        by (simp add: try_signal_def se_bind_def se_pure_def alert_id)
      with an Inr nt rn show ?thesis
        by (simp add: process_signal_def)
    qed
  qed
qed

lemma process_signals_summary:
  assumes ok: "\<forall>line w. fst (stdout_write env line w) = Inr ()"
  shows "\<exists>s' evs. process_signals env k a (map signal_of_hit hs) s = (Inr (), s')
     \<and> trace s' = trace s @ evs
     \<and> printed_lines evs = map (outcome_line env) (spec_run_summary env k a hs s)"
proof (induction hs arbitrary: s)
  case Nil
  show ?case by simp
next
  case (Cons h hs)
  let ?i = "JStr (hit_id h)"
  obtain ra s1 where an: "analyze_signal env a (signal_of_hit h) s = (ra, s1)"
    by (cases "analyze_signal env a (signal_of_hit h) s")
  from analyze_signal_trace [OF an] obtain evs1 where
    t1: "trace s1 = trace s @ evs1" and p1: "printed_lines evs1 = []"
    by blast
  have "\<exists>oc sn evsn. process_signal env k a (signal_of_hit h) s = (Inr (), sn)
      \<and> trace sn = trace s @ evsn \<and> printed_lines evsn = [outcome_line env oc]
      \<and> spec_run_summary env k a (h # hs) s = oc # spec_run_summary env k a hs sn"
  proof (cases ra)
    case (Inl e)
    let ?sn = "snd (py_print env (failure_line env ?i e) s1)"
    have "process_signal env k a (signal_of_hit h) s = (Inr (), ?sn)"
      using process_signal_stages [OF ok, of k a h s] an Inl by simp
    moreover have "trace ?sn = trace s @ (evs1 @ [Print (failure_line env ?i e)])"
      using py_print_ok [OF ok, of "failure_line env ?i e" s1] t1 by simp
    moreover have "printed_lines (evs1 @ [Print (failure_line env ?i e)])
        = [outcome_line env (Failed ?i e)]"
      using p1 by simp
    moreover have "spec_run_summary env k a (h # hs) s
        = Failed ?i e # spec_run_summary env k a hs ?sn"
      using an Inl by simp
    ultimately show ?thesis by blast
  next
    case (Inr res)
    obtain rn s2 where nt: "add_note env k ?i (note_text env res ?i) '''' s1 = (rn, s2)"
      by (cases "add_note env k ?i (note_text env res ?i) '''' s1")
    from add_note_trace [OF nt] have t2:
      "trace s2 = trace s1 @ [HttpPatch (note_request k ?i (note_text env res ?i) '''')]" .
    show ?thesis
    proof (cases rn)
      case (Inl e)
      let ?sn = "snd (py_print env (failure_line env ?i e) s2)"
      let ?evs = "evs1 @ [HttpPatch (note_request k ?i (note_text env res ?i) ''''),
                          Print (failure_line env ?i e)]"
      have "process_signal env k a (signal_of_hit h) s = (Inr (), ?sn)"
        using process_signal_stages [OF ok, of k a h s] an Inr nt Inl by simp
      moreover have "trace ?sn = trace s @ ?evs"
        using py_print_ok [OF ok, of "failure_line env ?i e" s2] t1 t2 by simp
      moreover have "printed_lines ?evs = [outcome_line env (Failed ?i e)]"
        using p1 by simp
      moreover have "spec_run_summary env k a (h # hs) s
          = Failed ?i e # spec_run_summary env k a hs ?sn"
        using an Inr nt Inl by simp
      ultimately show ?thesis by blast
    next
      case rn: (Inr j)
      let ?sn = "snd (py_print env (success_line env ?i) s2)"
      let ?evs = "evs1 @ [HttpPatch (note_request k ?i (note_text env res ?i) ''''),
                          Print (success_line env ?i)]"
      have "process_signal env k a (signal_of_hit h) s = (Inr (), ?sn)"
        using process_signal_stages [OF ok, of k a h s] an Inr nt rn by simp
      moreover have "trace ?sn = trace s @ ?evs"
        using py_print_ok [OF ok, of "success_line env ?i" s2] t1 t2 by simp
      moreover have "printed_lines ?evs = [outcome_line env (Annotated ?i)]"
        using p1 by simp
      moreover have "spec_run_summary env k a (h # hs) s
          = Annotated ?i # spec_run_summary env k a hs ?sn"
        using an Inr nt rn by simp
      ultimately show ?thesis by blast
    qed
  qed
  then obtain oc sn evsn where
    step: "process_signal env k a (signal_of_hit h) s = (Inr (), sn)"
    and tn: "trace sn = trace s @ evsn" and pn: "printed_lines evsn = [outcome_line env oc]"
    and sm: "spec_run_summary env k a (h # hs) s = oc # spec_run_summary env k a hs sn"
    by blast
  from Cons.IH [of sn] obtain s' evs where
    run: "process_signals env k a (map signal_of_hit hs) sn = (Inr (), s')"
    and t: "trace s' = trace sn @ evs"
    and p: "printed_lines evs = map (outcome_line env) (spec_run_summary env k a hs sn)"
    by blast
  have "process_signals env k a (map signal_of_hit (h # hs)) s = (Inr (), s')"
    using step run by simp
  moreover have "trace s' = trace s @ (evsn @ evs)" using tn t by simp
  moreover have "printed_lines (evsn @ evs)
      = map (outcome_line env) (spec_run_summary env k a (h # hs) s)"
    using pn p sm by simp
  ultimately show ?case by blast
qed

lemma try_signal_without_id:
  assumes "dict_index sig ''id'' = Inl e0" and "try_signal env k a sig s = (r, s')"
  shows "(\<exists>e. r = Inl e) \<and> printed_lines (trace s') = printed_lines (trace s)"
proof -
  have "\<exists>e. r = Inl e"
  proof (cases r)
    case (Inr u)
    with try_signal_trace [OF assms(2)] assms(1) show ?thesis by auto
  qed simp
  moreover from try_signal_trace [OF assms(2)] this
  have "printed_lines (trace s') = printed_lines (trace s)" by auto
  ultimately show ?thesis by blast
qed

section \<open>Runs in the simulated world\<close>

lemma mappings_ok_alert: "mappings_ok (signal_of_hit (alert i))"
  by (simp add: mappings_ok_def mapping_paths_def field_or_def empty_dict_def signal_of_hit_def alert_def)

lemma sim_log_debug:
  "log_debug sim_env self m d s = (Inr (), \<lparr>trace = trace s @ [FileAppend (log_file self) (''{}'' @ nl)], world = world s\<rparr>)"
  by (simp add: log_debug_def sim_env_def emit_def)

lemma sim_completions:
  "completions_create sim_env self req s =
     (if sim_chats (world s) \<in> set (sim_chat_fail_at (world s))
      then Inl (LibError ''rate limit exceeded'')
      else Inr \<lparr>choices = [Some ''low risk''], dump = JDict []\<rparr>,
      \<lparr>trace = trace s @ [ChatCreate req], world = (world s)\<lparr>sim_chats := sim_chats (world s) + 1\<rparr>\<rparr>)"
  by (simp add: completions_create_def sim_env_def sim_chat_def emit_def)

lemma sim_analyze:
  "analyze_signal sim_env self (signal_of_hit (alert i)) s =
     (if sim_chats (world s) \<in> set (sim_chat_fail_at (world s))
      then (Inl (LibError ''rate limit exceeded''),
            \<lparr>trace = trace s @
               [FileAppend (log_file self) (''{}'' @ nl),
                FileAppend (log_file self) (''{}'' @ nl),
                ChatCreate (analysis_request self
                  (render_prompt sim_env (extracted_fields (signal_of_hit (alert i)))))],
             world = (world s)\<lparr>sim_chats := sim_chats (world s) + 1\<rparr>\<rparr>)
      else (Inr \<lparr>signal_id = JStr i, analysis = Some ''low risk'',
                  model_used = model self, timestamp = JNull\<rparr>,
            \<lparr>trace = trace s @
               [FileAppend (log_file self) (''{}'' @ nl),
                FileAppend (log_file self) (''{}'' @ nl),
                ChatCreate (analysis_request self
                  (render_prompt sim_env (extracted_fields (signal_of_hit (alert i))))),
                FileAppend (log_file self) (''{}'' @ nl)],
             world = (world s)\<lparr>sim_chats := sim_chats (world s) + 1\<rparr>\<rparr>))"
  apply (simp add: analyze_signal_def se_bind_def se_pure_def prompt_on_mappings mappings_ok_alert
      sim_log_debug sim_completions exn_bind_def first_choice_def)
  apply (simp add: signal_of_hit_def alert_def dict_index_def dict_get_def)
  done

lemma sim_add_note:
  "add_note sim_env k eid txt tid s =
     (Inr (JDict []), \<lparr>trace = trace s @ [HttpPatch (note_request k eid txt tid)], world = world s\<rparr>)"
  by (simp add: add_note_def se_bind_def se_pure_def requests_patch_def sim_env_def emit_def
      raise_for_status_def exn_bind_def)

lemma hit_id_alert: "hit_id (alert i) = i"
  by (simp add: alert_def)

lemma sim_print:
  "py_print sim_env line s = (Inr (), \<lparr>trace = trace s @ [Print line], world = world s\<rparr>)"
  by (simp add: py_print_def sim_env_def emit_def)

lemma sim_stdout_ok: "\<forall>line w. fst (stdout_write sim_env line w) = Inr ()"
  by (simp add: sim_env_def)

lemma sim_process_signal:
  "process_signal sim_env k self (signal_of_hit (alert i)) s =
     (Inr (),
      \<lparr>trace = trace s @
         (if sim_chats (world s) \<in> set (sim_chat_fail_at (world s))
          then [FileAppend (log_file self) (''{}'' @ nl),
                FileAppend (log_file self) (''{}'' @ nl),
                ChatCreate (analysis_request self
                  (render_prompt sim_env (extracted_fields (signal_of_hit (alert i))))),
                Print (failure_line sim_env (JStr i) (LibError ''rate limit exceeded''))]
          else [FileAppend (log_file self) (''{}'' @ nl),
                FileAppend (log_file self) (''{}'' @ nl),
                ChatCreate (analysis_request self
                  (render_prompt sim_env (extracted_fields (signal_of_hit (alert i))))),
                FileAppend (log_file self) (''{}'' @ nl),
                HttpPatch (note_request k (JStr i)
                  (note_text sim_env \<lparr>signal_id = JStr i, analysis = Some ''low risk'',
                      model_used = model self, timestamp = JNull\<rparr> (JStr i)) ''''),
                Print (success_line sim_env (JStr i))]),
       world = (world s)\<lparr>sim_chats := sim_chats (world s) + 1\<rparr>\<rparr>)"
  by (simp add: process_signal_def try_signal_def se_bind_def se_pure_def sim_analyze sim_add_note
      alert_id hit_id_alert sim_print)

section \<open>Failure isolation: claim C1\<close>

lemma ascii_log_debug:
  "log_debug ascii_env self m d s
   = (Inr (), \<lparr>trace = trace s @ [FileAppend (log_file self) (''{}'' @ nl)], world = world s\<rparr>)"
  by (simp add: log_debug_def ascii_env_def sim_env_def emit_def)

lemma ascii_completions_fail:
  assumes "sim_chats (world s) \<in> set (sim_chat_fail_at (world s))"
  shows "completions_create ascii_env self req s =
     (Inl (LibError ''rate limit exceeded''),
      \<lparr>trace = trace s @ [ChatCreate req],
       world = (world s)\<lparr>sim_chats := sim_chats (world s) + 1\<rparr>\<rparr>)"
  using assms by (simp add: completions_create_def ascii_env_def sim_env_def sim_chat_def emit_def)

lemma ascii_print_failure_line:
  "py_print ascii_env (failure_line ascii_env i e) s
   = (Inl (UnicodeEncodeError (sq @ ''ascii'' @ sq @ '' codec cannot encode characters'')),
      \<lparr>trace = trace s, world = world s\<rparr>)"
  by (simp add: py_print_def ascii_env_def ascii_stdout_def failure_line_def cross_mark_def)

lemma ascii_analyze_fail:
  assumes "sim_chats (world s) \<in> set (sim_chat_fail_at (world s))"
  shows "analyze_signal ascii_env self (signal_of_hit (alert i)) s =
     (Inl (LibError ''rate limit exceeded''),
      \<lparr>trace = trace s @
         [FileAppend (log_file self) (''{}'' @ nl),
          FileAppend (log_file self) (''{}'' @ nl),
          ChatCreate (analysis_request self
            (render_prompt ascii_env (extracted_fields (signal_of_hit (alert i)))))],
       world = (world s)\<lparr>sim_chats := sim_chats (world s) + 1\<rparr>\<rparr>)"
  using assms
  by (simp add: analyze_signal_def se_bind_def se_pure_def prompt_on_mappings mappings_ok_alert
      ascii_log_debug ascii_completions_fail)

text \<open>
  C1, as amended. In every environment whose standard output accepts every line, for
  every sequence of alert records as \<open>get_signals\<close> builds them and from every state,
  the loop of \<open>main\<close> ends normally and its output is the Run Summary of the
  specification, entry by entry and in order: a record whose analysis (prompt
  construction included) raised, or whose note write raised, is reported by the failure
  marker with the record's id and the text of that error, any other record by the
  success marker with its id, and each record starts in the state left by the report of
  the record before it. An error of prompt construction is an error of the analysis,
  raised before any call is made.
\<close>

theorem isolate_and_continue:
  assumes "\<forall>line w. fst (stdout_write env line w) = Inr ()"
  shows "(\<exists>s' evs. process_signals env k a (map signal_of_hit hs) s = (Inr (), s')
           \<and> trace s' = trace s @ evs
           \<and> printed_lines evs = map (outcome_line env) (spec_run_summary env k a hs s))
    \<and> process_signal env k a (signal_of_hit h) st =
         (Inr (),
          (case analyze_signal env a (signal_of_hit h) st of
             (Inl e, s1) \<Rightarrow> snd (py_print env (failure_line env (JStr (hit_id h)) e) s1)
           | (Inr res, s1) \<Rightarrow>
               (case add_note env k (JStr (hit_id h)) (note_text env res (JStr (hit_id h))) '''' s1 of
                  (Inl e, s2) \<Rightarrow> snd (py_print env (failure_line env (JStr (hit_id h)) e) s2)
                | (Inr j, s2) \<Rightarrow> snd (py_print env (success_line env (JStr (hit_id h))) s2))))
    \<and> (create_signal_prompt env a sig = Inl ex \<longrightarrow> analyze_signal env a sig st = (Inl ex, st))"
proof (intro conjI impI)
  show "\<exists>s' evs. process_signals env k a (map signal_of_hit hs) s = (Inr (), s')
           \<and> trace s' = trace s @ evs
           \<and> printed_lines evs = map (outcome_line env) (spec_run_summary env k a hs s)"
    using assms by (rule process_signals_summary)
next
  show "process_signal env k a (signal_of_hit h) st =
         (Inr (),
          (case analyze_signal env a (signal_of_hit h) st of
             (Inl e, s1) \<Rightarrow> snd (py_print env (failure_line env (JStr (hit_id h)) e) s1)
           | (Inr res, s1) \<Rightarrow>
               (case add_note env k (JStr (hit_id h)) (note_text env res (JStr (hit_id h))) '''' s1 of
                  (Inl e, s2) \<Rightarrow> snd (py_print env (failure_line env (JStr (hit_id h)) e) s2)
                | (Inr j, s2) \<Rightarrow> snd (py_print env (success_line env (JStr (hit_id h))) s2))))"
    using assms by (rule process_signal_stages)
next
  assume "create_signal_prompt env a sig = Inl ex"
  then show "analyze_signal env a sig st = (Inl ex, st)"
    by (simp add: analyze_signal_def se_bind_def se_pure_def)
qed

theorem isolate_and_continue_witness:
  "(\<forall>line w. fst (stdout_write sim_env line w) = Inr ())
   \<and> fst (process_signals sim_env sim_kibana sim_analyst
        (map signal_of_hit [alert ''a1'', alert ''a2'', alert ''a3''])
        (sim_start ((sim_world [])\<lparr>sim_chat_fail_at := [1]\<rparr>))) = Inr ()
   \<and> spec_run_summary sim_env sim_kibana sim_analyst [alert ''a1'', alert ''a2'', alert ''a3'']
        (sim_start ((sim_world [])\<lparr>sim_chat_fail_at := [1]\<rparr>))
      = [Annotated (JStr ''a1''), Failed (JStr ''a2'') (LibError ''rate limit exceeded''),
         Annotated (JStr ''a3'')]
   \<and> printed_lines (trace (snd (process_signals sim_env sim_kibana sim_analyst
        (map signal_of_hit [alert ''a1'', alert ''a2'', alert ''a3''])
        (sim_start ((sim_world [])\<lparr>sim_chat_fail_at := [1]\<rparr>)))))
     = [check_mark @ '' Processed signal a1'',
        cross_mark @ '' Error processing signal a2: rate limit exceeded'',
        check_mark @ '' Processed signal a3'']"
proof -
  let ?hs = "[alert ''a1'', alert ''a2'', alert ''a3'']"
  let ?s0 = "sim_start ((sim_world [])\<lparr>sim_chat_fail_at := [1]\<rparr>)"
  let ?run = "process_signals sim_env sim_kibana sim_analyst (map signal_of_hit ?hs) ?s0"
  have ok: "\<forall>line w. fst (stdout_write sim_env line w) = Inr ()"
    by (rule sim_stdout_ok)
  have sm: "spec_run_summary sim_env sim_kibana sim_analyst ?hs ?s0
      = [Annotated (JStr ''a1''), Failed (JStr ''a2'') (LibError ''rate limit exceeded''),
         Annotated (JStr ''a3'')]"
    by (simp add: sim_analyze sim_add_note sim_print hit_id_alert sim_start_def sim_world_def)
  from isolate_and_continue [OF ok, THEN conjunct1, of sim_kibana sim_analyst ?hs ?s0]
  obtain s' evs where run: "?run = (Inr (), s')" and t: "trace s' = trace ?s0 @ evs"
    and p: "printed_lines evs
        = map (outcome_line sim_env) (spec_run_summary sim_env sim_kibana sim_analyst ?hs ?s0)"
    by blast
  have r: "fst ?run = Inr ()" using run by simp
  have "trace (snd ?run) = evs" using run t by (simp add: sim_start_def)
  with p sm have l: "printed_lines (trace (snd ?run))
     = [check_mark @ '' Processed signal a1'',
        cross_mark @ '' Error processing signal a2: rate limit exceeded'',
        check_mark @ '' Processed signal a3'']"
    by (simp add: success_line_def failure_line_def py_format_def)
  from ok r sm l show ?thesis by (intro conjI)
qed

text \<open>
  C1 as stated fails where a marker cannot be written. On a standard output that
  encodes ASCII only, the analysis of the first of two records raises; the error is
  caught, but the handler's \<open>print\<close> of the failure marker raises in its turn, outside
  any \<open>try\<close>: the run ends with that exception, nothing is recorded, and the second
  record is never processed (a single call reached the analysis service).
\<close>

theorem unwritable_marker_counterexample:
  "fst (process_signals ascii_env sim_kibana sim_analyst
        (map signal_of_hit [alert ''a1'', alert ''a2''])
        (sim_start ((sim_world [])\<lparr>sim_chat_fail_at := [0]\<rparr>)))
     = Inl (UnicodeEncodeError (sq @ ''ascii'' @ sq @ '' codec cannot encode characters''))
   \<and> printed_lines (trace (snd (process_signals ascii_env sim_kibana sim_analyst
        (map signal_of_hit [alert ''a1'', alert ''a2''])
        (sim_start ((sim_world [])\<lparr>sim_chat_fail_at := [0]\<rparr>))))) = []
   \<and> length (chat_requests (trace (snd (process_signals ascii_env sim_kibana sim_analyst
        (map signal_of_hit [alert ''a1'', alert ''a2''])
        (sim_start ((sim_world [])\<lparr>sim_chat_fail_at := [0]\<rparr>)))))) = 1"
proof -
  let ?s0 = "sim_start ((sim_world [])\<lparr>sim_chat_fail_at := [0]\<rparr>)"
  have f: "sim_chats (world ?s0) \<in> set (sim_chat_fail_at (world ?s0))"
    by (simp add: sim_start_def sim_world_def)
  have "process_signal ascii_env sim_kibana sim_analyst (signal_of_hit (alert ''a1'')) ?s0
      = (Inl (UnicodeEncodeError (sq @ ''ascii'' @ sq @ '' codec cannot encode characters'')),
         \<lparr>trace = trace ?s0 @
            [FileAppend (log_file sim_analyst) (''{}'' @ nl),
             FileAppend (log_file sim_analyst) (''{}'' @ nl),
             ChatCreate (analysis_request sim_analyst
               (render_prompt ascii_env (extracted_fields (signal_of_hit (alert ''a1'')))))],
          world = (world ?s0)\<lparr>sim_chats := sim_chats (world ?s0) + 1\<rparr>\<rparr>)"
    by (simp add: process_signal_def try_signal_def se_bind_def ascii_analyze_fail [OF f]
        alert_id ascii_print_failure_line)
  then show ?thesis by (simp add: sim_start_def)
qed

section \<open>Correlation of results and notes: claim C6\<close>

lemma note_request_fields:
  "rq_url (note_request k i t tid) = api_endpoint k @ ''/note''
   \<and> rq_json (note_request k i t tid) = Some (note_payload i t tid)
   \<and> lookup_path (note_payload i t tid) [''note'', ''eventId''] = Some i
   \<and> lookup_path (note_payload i t tid) [''note'', ''note''] = Some (JStr t)
   \<and> lookup_path (note_payload i t tid) [''note'', ''timelineId''] = Some (JStr tid)"
  by (simp add: note_request_def note_payload_def)

lemma note_text_names_id:
  "\<exists>pre mid post. note_text env res i
      = pre @ format_content (analysis res) @ mid @ ''Signal ID: '' @ py_format env i @ post"
  unfolding note_text_def
  apply (rule exI [of _ "nl @ ind12 @ ''AI Security Analysis'' @ ind12 @ nl @ nl @ ind12"])
  apply (rule exI [of _ "nl @ nl @ ind12"])
  apply (rule exI [of _ "nl @ ind12 @ ''Analysis Timestamp: '' @ py_format env (timestamp res) @ nl
     @ ind12 @ ''Model Used: '' @ model_used res @ nl @ ind12"])
  apply simp
  done

lemma process_signals_notes:
  assumes "process_signals env k a sigs s = (r, s')"
  shows "\<exists>evs. trace s' = trace s @ evs
        \<and> (\<forall>req \<in> set (patch_requests evs). \<exists>sig \<in> set sigs. \<exists>s0 res s1 i.
              analyze_signal env a sig s0 = (Inr res, s1)
              \<and> dict_index sig ''id'' = Inr i \<and> signal_id res = i
              \<and> req = note_request k i (note_text env res i) '''')"
  using assms
proof (induction sigs arbitrary: s)
  case Nil
  then show ?case by simp
next
  case (Cons sig sigs)
  obtain r1 s1 where step: "process_signal env k a sig s = (r1, s1)"
    by (cases "process_signal env k a sig s")
  from process_signal_notes [OF step] obtain evs1 where
    t1: "trace s1 = trace s @ evs1"
    and q1: "\<forall>req \<in> set (patch_requests evs1). \<exists>s0 res s2 i.
            analyze_signal env a sig s0 = (Inr res, s2)
            \<and> dict_index sig ''id'' = Inr i \<and> signal_id res = i
            \<and> req = note_request k i (note_text env res i) ''''"
    by fastforce
  show ?case
  proof (cases r1)
    case (Inl e)
    with Cons.prems step have "s' = s1" by simp
    with t1 q1 show ?thesis by fastforce
  next
    case (Inr u)
    with Cons.prems step have "process_signals env k a sigs s1 = (r, s')" by simp
    from Cons.IH [OF this] obtain evs2 where
      t2: "trace s' = trace s1 @ evs2"
      and q2: "\<forall>req \<in> set (patch_requests evs2). \<exists>sig \<in> set sigs. \<exists>s0 res s1 i.
            analyze_signal env a sig s0 = (Inr res, s1)
            \<and> dict_index sig ''id'' = Inr i \<and> signal_id res = i
            \<and> req = note_request k i (note_text env res i) ''''"
      by blast
    from t1 t2 have "trace s' = trace s @ (evs1 @ evs2)" by simp
    moreover from q1 q2 have "\<forall>req \<in> set (patch_requests (evs1 @ evs2)).
          \<exists>sg \<in> set (sig # sigs). \<exists>s0 res s1 i.
            analyze_signal env a sg s0 = (Inr res, s1)
            \<and> dict_index sg ''id'' = Inr i \<and> signal_id res = i
            \<and> req = note_request k i (note_text env res i) ''''"
      by (auto; blast)
    ultimately show ?thesis by blast
  qed
qed

text \<open>
  C6. Every analysis result carries the id of the alert record it was computed from.
  In a run of the loop over any sequence of records, every request that writes a note
  to Kibana belongs to one of the records of the run: it is sent to the note endpoint,
  the \<open>eventId\<close> of its body is the id of that record, the \<open>note\<close> of its body is the
  note text built from an analysis result of that same record, whose \<open>signal_id\<close> is
  that id, and this text holds the narrative of that result and names that id after
  \<open>Signal ID:\<close>. No note is written under another alert's identity.
\<close>

theorem write_back_keyed_by_own_id:
  assumes "process_signals env k a sigs s = (r, s')"
  shows "(\<forall>sig s0 res s1. analyze_signal env a sig s0 = (Inr res, s1)
            \<longrightarrow> dict_index sig ''id'' = Inr (signal_id res))
     \<and> (\<exists>evs. trace s' = trace s @ evs
        \<and> (\<forall>req \<in> set (patch_requests evs). \<exists>sig \<in> set sigs. \<exists>s0 res s1 i body.
              analyze_signal env a sig s0 = (Inr res, s1)
              \<and> dict_index sig ''id'' = Inr i \<and> signal_id res = i
              \<and> req = note_request k i (note_text env res i) ''''
              \<and> rq_url req = api_endpoint k @ ''/note''
              \<and> rq_json req = Some body
              \<and> lookup_path body [''note'', ''eventId''] = Some i
              \<and> lookup_path body [''note'', ''note''] = Some (JStr (note_text env res i))
              \<and> lookup_path body [''note'', ''timelineId''] = Some (JStr [])
              \<and> (\<exists>pre mid post. note_text env res i
                    = pre @ format_content (analysis res) @ mid
                      @ ''Signal ID: '' @ py_format env i @ post)))"
proof
  show "\<forall>sig s0 res s1. analyze_signal env a sig s0 = (Inr res, s1)
            \<longrightarrow> dict_index sig ''id'' = Inr (signal_id res)"
    using analyze_signal_id by blast
  from process_signals_notes [OF assms] obtain evs where
    t: "trace s' = trace s @ evs"
    and q: "\<forall>req \<in> set (patch_requests evs). \<exists>sig \<in> set sigs. \<exists>s0 res s1 i.
              analyze_signal env a sig s0 = (Inr res, s1)
              \<and> dict_index sig ''id'' = Inr i \<and> signal_id res = i
              \<and> req = note_request k i (note_text env res i) ''''"
    by blast
  have "\<forall>req \<in> set (patch_requests evs). \<exists>sig \<in> set sigs. \<exists>s0 res s1 i body.
              analyze_signal env a sig s0 = (Inr res, s1)
              \<and> dict_index sig ''id'' = Inr i \<and> signal_id res = i
              \<and> req = note_request k i (note_text env res i) ''''
              \<and> rq_url req = api_endpoint k @ ''/note''
              \<and> rq_json req = Some body
              \<and> lookup_path body [''note'', ''eventId''] = Some i
              \<and> lookup_path body [''note'', ''note''] = Some (JStr (note_text env res i))
              \<and> lookup_path body [''note'', ''timelineId''] = Some (JStr [])
              \<and> (\<exists>pre mid post. note_text env res i
                    = pre @ format_content (analysis res) @ mid
                      @ ''Signal ID: '' @ py_format env i @ post)"
  proof
    fix req assume "req \<in> set (patch_requests evs)"
    with q obtain sig s0 res s1 i where
      m: "sig \<in> set sigs" and an: "analyze_signal env a sig s0 = (Inr res, s1)"
      and ix: "dict_index sig ''id'' = Inr i" and sid: "signal_id res = i"
      and rq: "req = note_request k i (note_text env res i) ''''"
      by blast
    let ?body = "note_payload i (note_text env res i) ''''"
    from note_request_fields [of k i "note_text env res i" "''''"] rq
    have f: "rq_url req = api_endpoint k @ ''/note''" "rq_json req = Some ?body"
      "lookup_path ?body [''note'', ''eventId''] = Some i"
      "lookup_path ?body [''note'', ''note''] = Some (JStr (note_text env res i))"
      "lookup_path ?body [''note'', ''timelineId''] = Some (JStr [])"
      by simp_all
    from an ix sid rq f note_text_names_id [of env res i]
    have "\<exists>s0 res s1 i body.
              analyze_signal env a sig s0 = (Inr res, s1)
              \<and> dict_index sig ''id'' = Inr i \<and> signal_id res = i
              \<and> req = note_request k i (note_text env res i) ''''
              \<and> rq_url req = api_endpoint k @ ''/note''
              \<and> rq_json req = Some body
              \<and> lookup_path body [''note'', ''eventId''] = Some i
              \<and> lookup_path body [''note'', ''note''] = Some (JStr (note_text env res i))
              \<and> lookup_path body [''note'', ''timelineId''] = Some (JStr [])
              \<and> (\<exists>pre mid post. note_text env res i
                    = pre @ format_content (analysis res) @ mid
                      @ ''Signal ID: '' @ py_format env i @ post)"
      apply -
      apply (rule exI [of _ s0])
      apply (rule exI [of _ res])
      apply (rule exI [of _ s1])
      apply (rule exI [of _ i])
      apply (rule exI [of _ ?body])
      apply (intro conjI)
      apply assumption+
      done
    with m show "\<exists>sig \<in> set sigs. \<exists>s0 res s1 i body.
              analyze_signal env a sig s0 = (Inr res, s1)
              \<and> dict_index sig ''id'' = Inr i \<and> signal_id res = i
              \<and> req = note_request k i (note_text env res i) ''''
              \<and> rq_url req = api_endpoint k @ ''/note''
              \<and> rq_json req = Some body
              \<and> lookup_path body [''note'', ''eventId''] = Some i
              \<and> lookup_path body [''note'', ''note''] = Some (JStr (note_text env res i))
              \<and> lookup_path body [''note'', ''timelineId''] = Some (JStr [])
              \<and> (\<exists>pre mid post. note_text env res i
                    = pre @ format_content (analysis res) @ mid
                      @ ''Signal ID: '' @ py_format env i @ post)"
      apply -
      apply (rule bexI [of _ sig])
       apply assumption+
      done
  qed
  with t show "\<exists>evs. trace s' = trace s @ evs
        \<and> (\<forall>req \<in> set (patch_requests evs). \<exists>sig \<in> set sigs. \<exists>s0 res s1 i body.
              analyze_signal env a sig s0 = (Inr res, s1)
              \<and> dict_index sig ''id'' = Inr i \<and> signal_id res = i
              \<and> req = note_request k i (note_text env res i) ''''
              \<and> rq_url req = api_endpoint k @ ''/note''
              \<and> rq_json req = Some body
              \<and> lookup_path body [''note'', ''eventId''] = Some i
              \<and> lookup_path body [''note'', ''note''] = Some (JStr (note_text env res i))
              \<and> lookup_path body [''note'', ''timelineId''] = Some (JStr [])
              \<and> (\<exists>pre mid post. note_text env res i
                    = pre @ format_content (analysis res) @ mid
                      @ ''Signal ID: '' @ py_format env i @ post))"
    apply -
    apply (rule exI [of _ evs])
    apply (rule conjI)
     apply assumption+
    done
qed

theorem write_back_keyed_by_own_id_witness:
  "map rq_json (patch_requests (trace (snd (process_signals sim_env sim_kibana sim_analyst
        (map signal_of_hit [alert ''a1'', alert ''a2''])
        (sim_start (sim_world []))))))
   = [Some (JDict [(''note'', JDict [(''timelineId'', JStr []),
                                     (''eventId'', JStr ''a1''),
                                     (''note'', JStr (nl
         @ ind12 @ ''AI Security Analysis'' @ ind12 @ nl
         @ nl
         @ ind12 @ ''low risk'' @ nl
         @ nl
         @ ind12 @ ''Signal ID: a1'' @ nl
         @ ind12 @ ''Analysis Timestamp: None'' @ nl
         @ ind12 @ ''Model Used: gpt-4o'' @ nl
         @ ind12))])]),
      Some (JDict [(''note'', JDict [(''timelineId'', JStr []),
                                     (''eventId'', JStr ''a2''),
                                     (''note'', JStr (nl
         @ ind12 @ ''AI Security Analysis'' @ ind12 @ nl
         @ nl
         @ ind12 @ ''low risk'' @ nl
         @ nl
         @ ind12 @ ''Signal ID: a2'' @ nl
         @ ind12 @ ''Analysis Timestamp: None'' @ nl
         @ ind12 @ ''Model Used: gpt-4o'' @ nl
         @ ind12))])])]
   \<and> map rq_url (patch_requests (trace (snd (process_signals sim_env sim_kibana sim_analyst
        (map signal_of_hit [alert ''a1'', alert ''a2''])
        (sim_start (sim_world []))))))
     = [''https://kb.test/s/soc/api/note'', ''https://kb.test/s/soc/api/note'']
   \<and> (\<exists>evs. trace (snd (process_signals sim_env sim_kibana sim_analyst
        (map signal_of_hit [alert ''a1'', alert ''a2''])
        (sim_start (sim_world [])))) = trace (sim_start (sim_world [])) @ evs
        \<and> (\<forall>req \<in> set (patch_requests evs).
              \<exists>sig \<in> set (map signal_of_hit [alert ''a1'', alert ''a2'']). \<exists>s0 res s1 i body.
              analyze_signal sim_env sim_analyst sig s0 = (Inr res, s1)
              \<and> dict_index sig ''id'' = Inr i \<and> signal_id res = i
              \<and> req = note_request sim_kibana i (note_text sim_env res i) ''''
              \<and> rq_url req = api_endpoint sim_kibana @ ''/note''
              \<and> rq_json req = Some body
              \<and> lookup_path body [''note'', ''eventId''] = Some i
              \<and> lookup_path body [''note'', ''note''] = Some (JStr (note_text sim_env res i))
              \<and> lookup_path body [''note'', ''timelineId''] = Some (JStr [])
              \<and> (\<exists>pre mid post. note_text sim_env res i
                    = pre @ format_content (analysis res) @ mid
                      @ ''Signal ID: '' @ py_format sim_env i @ post)))"
proof -
  let ?run = "process_signals sim_env sim_kibana sim_analyst
        (map signal_of_hit [alert ''a1'', alert ''a2'']) (sim_start (sim_world []))"
  have h: "?run = (fst ?run, snd ?run)" by (rule prod.collapse [symmetric])
  have m: "model sim_analyst = ''gpt-4o''"
    by (simp add: sim_analyst_def AISecurityAnalyst_init_def)
  have t: "note_text sim_env \<lparr>signal_id = JStr x, analysis = Some ''low risk'',
            model_used = ''gpt-4o'', timestamp = JNull\<rparr> (JStr x)
      = nl @ ind12 @ ''AI Security Analysis'' @ ind12 @ nl @ nl @ ind12 @ ''low risk'' @ nl
         @ nl @ ind12 @ ''Signal ID: '' @ x @ nl @ ind12 @ ''Analysis Timestamp: None'' @ nl
         @ ind12 @ ''Model Used: gpt-4o'' @ nl @ ind12" for x
    by (simp add: note_text_def format_content_def py_format_def)
  have j: "map rq_json (patch_requests (trace (snd ?run)))
   = [Some (JDict [(''note'', JDict [(''timelineId'', JStr []),
                                     (''eventId'', JStr ''a1''),
                                     (''note'', JStr (nl
         @ ind12 @ ''AI Security Analysis'' @ ind12 @ nl
         @ nl
         @ ind12 @ ''low risk'' @ nl
         @ nl
         @ ind12 @ ''Signal ID: a1'' @ nl
         @ ind12 @ ''Analysis Timestamp: None'' @ nl
         @ ind12 @ ''Model Used: gpt-4o'' @ nl
         @ ind12))])]),
      Some (JDict [(''note'', JDict [(''timelineId'', JStr []),
                                     (''eventId'', JStr ''a2''),
                                     (''note'', JStr (nl
         @ ind12 @ ''AI Security Analysis'' @ ind12 @ nl
         @ nl
         @ ind12 @ ''low risk'' @ nl
         @ nl
         @ ind12 @ ''Signal ID: a2'' @ nl
         @ ind12 @ ''Analysis Timestamp: None'' @ nl
         @ ind12 @ ''Model Used: gpt-4o'' @ nl
         @ ind12))])])]"
    by (simp add: sim_process_signal sim_start_def sim_world_def note_request_def
        note_payload_def m t)
  have u: "map rq_url (patch_requests (trace (snd ?run)))
     = [''https://kb.test/s/soc/api/note'', ''https://kb.test/s/soc/api/note'']"
    by (simp add: sim_process_signal sim_start_def sim_world_def note_request_def m
        sim_kibana_def)
  note e = conjunct2 [OF write_back_keyed_by_own_id [OF h]]
  show ?thesis
    apply (rule conjI)
     apply (rule j)
    apply (rule conjI)
     apply (rule u)
    apply (rule e)
    done
qed

section \<open>The request to the analysis service: claim C8\<close>

text \<open>
  C8, as amended. An invocation of \<open>analyze_signal\<close> calls the analysis service at
  most once, and the call carries exactly two messages, the fixed system instruction and
  the rendered prompt of the record as the user message, with the analyst's model
  identifier and temperature. The temperature is an optional constructor argument: left
  out, it is 0.3 (and the model is \<open>"gpt-4o"\<close>); given, it is the value given.
\<close>

theorem analysis_request_composition:
  assumes "analyze_signal env self signal s = (r, s')"
  shows "(\<exists>evs. trace s' = trace s @ evs
           \<and> (chat_requests evs = []
              \<or> (\<exists>p. create_signal_prompt env self signal = Inr p
                   \<and> chat_requests evs =
                       [\<lparr>cr_model = model self,
                         cr_messages = [(''system'', system_instruction), (''user'', p)],
                         cr_temperature = temperature self\<rparr>])))
         \<and> temperature (AISecurityAnalyst_init key m None) = 3 / 10
         \<and> temperature (AISecurityAnalyst_init key m (Some t)) = t
         \<and> model (AISecurityAnalyst_init key None topt) = ''gpt-4o''"
  using analyze_signal_trace [OF assms]
  by (auto simp: analysis_request_def AISecurityAnalyst_init_def)

theorem analysis_request_composition_witness:
  "chat_requests (trace (snd (analyze_signal sim_env sim_analyst (signal_of_hit (alert ''a1''))
       (sim_start (sim_world [])))))
   = [\<lparr>cr_model = ''gpt-4o'',
       cr_messages = [(''system'', system_instruction),
                      (''user'', render_prompt sim_env (extracted_fields (signal_of_hit (alert ''a1''))))],
       cr_temperature = 3 / 10\<rparr>]
   \<and> (\<exists>evs. trace (snd (analyze_signal sim_env sim_analyst (signal_of_hit (alert ''a1''))
          (sim_start (sim_world []))))
         = trace (sim_start (sim_world [])) @ evs
        \<and> (chat_requests evs = []
           \<or> (\<exists>p. create_signal_prompt sim_env sim_analyst (signal_of_hit (alert ''a1'')) = Inr p
               \<and> chat_requests evs =
                   [\<lparr>cr_model = model sim_analyst,
                     cr_messages = [(''system'', system_instruction), (''user'', p)],
                     cr_temperature = temperature sim_analyst\<rparr>])))"
proof -
  let ?run = "analyze_signal sim_env sim_analyst (signal_of_hit (alert ''a1''))
       (sim_start (sim_world []))"
  have h: "?run = (fst ?run, snd ?run)" by (rule prod.collapse [symmetric])
  have "chat_requests (trace (snd ?run))
   = [\<lparr>cr_model = ''gpt-4o'',
       cr_messages = [(''system'', system_instruction),
                      (''user'', render_prompt sim_env (extracted_fields (signal_of_hit (alert ''a1''))))],
       cr_temperature = 3 / 10\<rparr>]"
    by (simp add: sim_analyze sim_start_def sim_world_def analysis_request_def sim_analyst_def
        AISecurityAnalyst_init_def)
  with analysis_request_composition [OF h] show ?thesis by blast
qed

text \<open>
  C8 as stated fails: the constructor accepts a call without a temperature and sets
  0.3. \<open>main.py\<close> builds its analyst that way.
\<close>

theorem default_temperature_counterexample:
  "AISecurityAnalyst_init ''sk-test'' None None
   = \<lparr>client_api_key = ''sk-test'', model = ''gpt-4o'', temperature = 3 / 10,
      log_file = ''logs.txt''\<rparr>"
  by (simp add: AISecurityAnalyst_init_def)

section \<open>The handler reads the id: claim C10\<close>

text \<open>
  C10. When the records before it have been processed normally, a record that is a dict
  without the key \<open>"id"\<close> ends the run: its \<open>try\<close> body raises, the handler
  raises \<open>KeyError('id')\<close> while it formats its message, the loop stops in the
  state that record left, with that error, and nothing is printed for that record or
  for the records after it.
\<close>

theorem handler_needs_id:
  assumes "map_of kvs ''id'' = None"
    and "fst (process_signals env k a pre s) = Inr ()"
  shows "fst (process_signals env k a (pre @ JDict kvs # rest) s) = Inl (KeyError ''id'')
     \<and> process_signals env k a (pre @ JDict kvs # rest) s
         = process_signal env k a (JDict kvs) (snd (process_signals env k a pre s))
     \<and> printed_lines (trace (snd (process_signals env k a (pre @ JDict kvs # rest) s)))
         = printed_lines (trace (snd (process_signals env k a pre s)))"
proof -
  have idx: "dict_index (JDict kvs) ''id'' = Inl (KeyError ''id'')"
    using assms(1) by (simp add: dict_index_def)
  obtain r0 s1 where p: "process_signals env k a pre s = (r0, s1)"
    by (cases "process_signals env k a pre s")
  with assms(2) have r0: "r0 = Inr ()" by simp
  obtain rb sb where b: "process_signal env k a (JDict kvs) s1 = (rb, sb)"
    by (cases "process_signal env k a (JDict kvs) s1")
  from process_signal_without_id [OF idx, of env k a s1] b
  have rb: "rb = Inl (KeyError ''id'')" by simp
  have run: "process_signals env k a (pre @ JDict kvs # rest) s = (rb, sb)"
    by (simp add: process_signals_append p r0 b rb)
  obtain rt st where tr: "try_signal env k a (JDict kvs) s1 = (rt, st)"
    by (cases "try_signal env k a (JDict kvs) s1")
  from try_signal_without_id [OF idx tr] obtain e where
    rt: "rt = Inl e" and pl: "printed_lines (trace st) = printed_lines (trace s1)"
    by blast
  have "sb = st"
    using b tr rt idx by (simp add: process_signal_def)
  with run rb pl p b show ?thesis by simp
qed

theorem handler_needs_id_witness:
  "fst (process_signals sim_env sim_kibana sim_analyst
      ([signal_of_hit (alert ''a1'')] @ JDict [(''source'', JDict [])] # [signal_of_hit (alert ''a3'')])
      (sim_start (sim_world []))) = Inl (KeyError ''id'')
   \<and> printed_lines (trace (snd (process_signals sim_env sim_kibana sim_analyst
      ([signal_of_hit (alert ''a1'')] @ JDict [(''source'', JDict [])] # [signal_of_hit (alert ''a3'')])
      (sim_start (sim_world [])))))
     = [check_mark @ '' Processed signal a1'']"
proof -
  have a: "map_of [(''source'', JDict [])] ''id'' = None" by simp
  have b: "fst (process_signals sim_env sim_kibana sim_analyst [signal_of_hit (alert ''a1'')]
      (sim_start (sim_world []))) = Inr ()"
    by (simp add: sim_process_signal)
  have c: "printed_lines (trace (snd (process_signals sim_env sim_kibana sim_analyst
      [signal_of_hit (alert ''a1'')] (sim_start (sim_world [])))))
     = [check_mark @ '' Processed signal a1'']"
    by (simp add: sim_process_signal sim_start_def sim_world_def success_line_def py_format_def)
  note h = handler_needs_id [OF a b, of "[signal_of_hit (alert ''a3'')]"]
  from h have d: "fst (process_signals sim_env sim_kibana sim_analyst
      ([signal_of_hit (alert ''a1'')] @ JDict [(''source'', JDict [])] # [signal_of_hit (alert ''a3'')])
      (sim_start (sim_world []))) = Inl (KeyError ''id'')"
    by (rule conjunct1)
  from h have e: "printed_lines (trace (snd (process_signals sim_env sim_kibana sim_analyst
      ([signal_of_hit (alert ''a1'')] @ JDict [(''source'', JDict [])] # [signal_of_hit (alert ''a3'')])
      (sim_start (sim_world [])))))
     = printed_lines (trace (snd (process_signals sim_env sim_kibana sim_analyst
      [signal_of_hit (alert ''a1'')] (sim_start (sim_world [])))))"
    by (rule conjunct2 [THEN conjunct2])
  from d e [unfolded c] show ?thesis by (rule conjI)
qed

section \<open>Lemmas on the pagination loops\<close>

lemma client_scroll_trace:
  assumes "client_scroll env c sid keep s = (r, s')"
  shows "trace s' = trace s @ [Scroll sid keep]"
  using assms by (auto simp: client_scroll_def emit_def split: prod.splits)

lemma client_search_trace:
  assumes "client_search env c req s = (r, s')"
  shows "trace s' = trace s @ [Search req]"
  using assms by (auto simp: client_search_def emit_def split: prod.splits)

lemma client_clear_scroll_trace:
  assumes "client_clear_scroll env c sid s = (r, s')"
  shows "trace s' = trace s @ [ClearScroll sid]"
  using assms by (auto simp: client_clear_scroll_def emit_def split: prod.splits)

lemma requests_get_trace:
  assumes "requests_get env req s = (r, s')"
  shows "trace s' = trace s @ [HttpGet req]"
  using assms by (auto simp: requests_get_def emit_def split: prod.splits)

lemma scroll_loop_trace:
  assumes "scroll_loop env c sid resp res s = Some y"
  shows "\<exists>evs. trace (snd y) = trace s @ evs \<and> printed_lines evs = []
           \<and> clear_scroll_calls evs = []
           \<and> ((\<exists>hs. res = map signal_of_hit hs)
                 \<longrightarrow> (\<forall>res'. fst y = Inr res' \<longrightarrow> (\<exists>hs'. res' = map signal_of_hit hs')))"
  using assms
proof (induction env c sid resp res s y rule: scroll_loop.raw_induct [rotated 1, consumes 1])
  case (1 scroll_loop env c sid resp res s y)
  show ?case
  proof (cases "length (hits resp) \<noteq> 0")
    case False
    with 1(2) have "y = (Inr res, s)" by simp
    then show ?thesis by auto
  next
    case True
    obtain r1 s1 where cs: "client_scroll env c sid ''5m'' s = (r1, s1)"
      by (cases "client_scroll env c sid ''5m'' s")
    from client_scroll_trace [OF cs] have t1: "trace s1 = trace s @ [Scroll sid ''5m'']" .
    show ?thesis
    proof (cases r1)
      case (Inl e)
      with 1(2) True cs have "y = (Inl e, s1)" by simp
      with t1 show ?thesis by auto
    next
      case (Inr resp1)
      with 1(2) True cs have
        "scroll_loop env c sid resp1 (res @ map signal_of_hit (hits resp1)) s1 = Some y"
        by simp
      from 1(1) [OF this] obtain evs where
        t: "trace (snd y) = trace s1 @ evs" and p: "printed_lines evs = []"
        and q: "clear_scroll_calls evs = []"
        and f: "(\<exists>hs. res @ map signal_of_hit (hits resp1) = map signal_of_hit hs)
                 \<longrightarrow> (\<forall>res'. fst y = Inr res' \<longrightarrow> (\<exists>hs'. res' = map signal_of_hit hs'))"
        by blast
      have g: "(\<exists>hs. res = map signal_of_hit hs)
                 \<longrightarrow> (\<exists>hs. res @ map signal_of_hit (hits resp1) = map signal_of_hit hs)"
        by (metis map_append)
      from t t1 have "trace (snd y) = trace s @ (Scroll sid ''5m'' # evs)" by simp
      moreover have "printed_lines (Scroll sid ''5m'' # evs) = []" using p by simp
      moreover have "clear_scroll_calls (Scroll sid ''5m'' # evs) = []" using q by simp
      ultimately show ?thesis using f g by blast
    qed
  qed
qed

lemma get_signals_trace:
  assumes "get_signals env c space days s = Some (r, s')"
  shows "\<exists>evs. trace s' = trace s @ evs \<and> printed_lines evs = []
           \<and> (\<forall>sigs. r = Inr sigs \<longrightarrow>
                  (\<exists>hs. sigs = map signal_of_hit hs) \<and> length (clear_scroll_calls evs) = 1)"
proof -
  let ?req = "signals_request space (date_from_isoformat env days (world s))"
  obtain r1 s1 where cs: "client_search env c ?req s = (r1, s1)"
    by (cases "client_search env c ?req s")
  from client_search_trace [OF cs] have t1: "trace s1 = trace s @ [Search ?req]" .
  show ?thesis
  proof (cases r1)
    case (Inl e)
    with assms cs have "r = Inl e" "s' = s1" by (auto simp: get_signals_def Let_def)
    with t1 show ?thesis by auto
  next
    case (Inr resp)
    from assms cs Inr obtain y where
      loop: "scroll_loop env c (scroll_id resp) resp (map signal_of_hit (hits resp)) s1 = Some y"
      by (auto simp: get_signals_def Let_def split: option.splits)
    from scroll_loop_trace [OF loop] obtain evs where
      t2: "trace (snd y) = trace s1 @ evs" and p: "printed_lines evs = []"
      and q: "clear_scroll_calls evs = []"
      and f: "\<forall>res'. fst y = Inr res' \<longrightarrow> (\<exists>hs'. res' = map signal_of_hit hs')"
      by blast
    obtain r2 s2 where y: "y = (r2, s2)" by (cases y)
    show ?thesis
    proof (cases r2)
      case (Inl e)
      with assms cs Inr loop y have "r = Inl e" "s' = s2" by (auto simp: get_signals_def Let_def)
      with t1 t2 p y show ?thesis by auto
    next
      case r2: (Inr results)
      obtain r3 s3 where cl: "client_clear_scroll env c (scroll_id resp) s2 = (r3, s3)"
        by (cases "client_clear_scroll env c (scroll_id resp) s2")
      from client_clear_scroll_trace [OF cl]
      have t3: "trace s3 = trace s2 @ [ClearScroll (scroll_id resp)]" .
      from assms cs Inr loop y r2 cl have s': "s' = s3" and r: "r = Inr results \<or> (\<exists>e. r = Inl e)"
        by (auto simp: get_signals_def Let_def split: sum.splits)
      from t1 t2 t3 y s' have "trace s' = trace s @ (Search ?req # evs @ [ClearScroll (scroll_id resp)])"
        by simp
      moreover have "printed_lines (Search ?req # evs @ [ClearScroll (scroll_id resp)]) = []"
        using p by simp
      moreover have "length (clear_scroll_calls (Search ?req # evs @ [ClearScroll (scroll_id resp)])) = 1"
        using q by simp
      moreover from f y r2 have "\<exists>hs. results = map signal_of_hit hs" by simp
      ultimately show ?thesis using r by blast
    qed
  qed
qed

lemma rules_loop_trace:
  assumes "rules_loop env k all_rules page s = Some y"
  shows "\<exists>evs. trace (snd y) = trace s @ evs \<and> printed_lines evs = []"
  using assms
proof (induction env k all_rules page s y rule: rules_loop.raw_induct [rotated 1, consumes 1])
  case (1 rules_loop env k all_rules page s y)
  obtain r1 s1 where g: "requests_get env (rules_request k page 100) s = (r1, s1)"
    by (cases "requests_get env (rules_request k page 100) s")
  from requests_get_trace [OF g] have t1: "trace s1 = trace s @ [HttpGet (rules_request k page 100)]" .
  from 1(2) g have "snd y = s1 \<or> (\<exists>rs p. rules_loop env k rs p s1 = Some y)"
    by (auto split: sum.splits if_splits)
  then show ?case
  proof
    assume "snd y = s1"
    with t1 show ?thesis by auto
  next
    assume "\<exists>rs p. rules_loop env k rs p s1 = Some y"
    then obtain rs p where "rules_loop env k rs p s1 = Some y" by blast
    from 1(1) [OF this] obtain evs where "trace (snd y) = trace s1 @ evs" "printed_lines evs = []"
      by blast
    with t1 have "trace (snd y) = trace s @ (HttpGet (rules_request k page 100) # evs)"
      "printed_lines (HttpGet (rules_request k page 100) # evs) = []" by simp_all
    then show ?thesis by blast
  qed
qed

lemma sim_get_signals:
  assumes "sim_scroll_fail_at (world s) = None"
  shows "\<exists>s'. get_signals sim_env c space days s
            = Some (Inr (map signal_of_hit (sim_docs (world s))), s')
      \<and> trace s' = trace s
          @ [Search (signals_request space ''2024-04-01T12:00:00'')]
          @ replicate ((length (sim_docs (world s)) + 999) div 1000) (Scroll ''ctx-1'' ''5m'')
          @ [ClearScroll ''ctx-1'']"
proof -
  let ?req = "signals_request space ''2024-04-01T12:00:00''"
  let ?docs = "sim_docs (world s)"
  let ?resp = "\<lparr>scroll_id = ''ctx-1'', hits = take 1000 ?docs\<rparr>"
  let ?s1 = "\<lparr>trace = trace s @ [Search ?req],
              world = (world s)\<lparr>sim_pending := drop 1000 ?docs, sim_page := 1000\<rparr>\<rparr>"
  have df: "date_from_isoformat sim_env days (world s) = ''2024-04-01T12:00:00''"
    by (simp add: sim_env_def)
  have search: "client_search sim_env c ?req s = (Inr ?resp, ?s1)"
    by (simp add: client_search_def sim_env_def sim_search_def emit_def signals_request_def)
  have clear: "\<And>s2. client_clear_scroll sim_env c ''ctx-1'' s2
      = (Inr (), \<lparr>trace = trace s2 @ [ClearScroll ''ctx-1''],
                  world = (world s2)\<lparr>sim_pending := []\<rparr>\<rparr>)"
    by (simp add: client_clear_scroll_def sim_env_def emit_def)
  have "\<exists>s2. scroll_loop sim_env c ''ctx-1'' ?resp (map signal_of_hit (hits ?resp)) ?s1
          = Some (Inr (map signal_of_hit ?docs), s2)
        \<and> trace s2 = trace ?s1 @ replicate ((length ?docs + 999) div 1000) (Scroll ''ctx-1'' ''5m'')"
  proof (cases "?docs = []")
    case True
    then have "scroll_loop sim_env c ''ctx-1'' ?resp (map signal_of_hit (hits ?resp)) ?s1
          = Some (Inr (map signal_of_hit ?docs), ?s1)"
      by (subst scroll_loop.simps) simp
    moreover have "(length ?docs + 999) div 1000 = 0" using True by simp
    ultimately show ?thesis by simp
  next
    case False
    have a: "sim_scroll_fail_at (world ?s1) = None" using assms by simp
    have b: "0 < sim_page (world ?s1)" by simp
    have c: "hits ?resp \<noteq> []" using False by simp
    from sim_scroll_loop [OF a b c, of c "''ctx-1''" "map signal_of_hit (hits ?resp)"]
    obtain s2 where
      run: "scroll_loop sim_env c ''ctx-1'' ?resp (map signal_of_hit (hits ?resp)) ?s1
          = Some (Inr (map signal_of_hit (hits ?resp) @ map signal_of_hit (sim_pending (world ?s1))), s2)"
      and tr: "trace s2 = trace ?s1 @ replicate
               (Suc ((length (sim_pending (world ?s1)) + sim_page (world ?s1) - 1) div sim_page (world ?s1)))
               (Scroll ''ctx-1'' ''5m'')"
      by blast
    have res: "map signal_of_hit (hits ?resp) @ map signal_of_hit (sim_pending (world ?s1))
        = map signal_of_hit ?docs"
      by (simp add: map_append [symmetric] del: map_append)
    have "Suc ((length ?docs - 1000 + 1000 - 1) div 1000) = (length ?docs + 1000 - 1) div 1000"
      using False by (intro ceil_step) simp_all
    then have cnt: "Suc ((length (sim_pending (world ?s1)) + sim_page (world ?s1) - 1) div sim_page (world ?s1))
        = (length ?docs + 999) div 1000"
      by simp
    from run tr show ?thesis unfolding res cnt by blast
  qed
  then obtain s2 where
    loop: "scroll_loop sim_env c ''ctx-1'' ?resp (map signal_of_hit (hits ?resp)) ?s1
          = Some (Inr (map signal_of_hit ?docs), s2)"
    and tr: "trace s2 = trace ?s1 @ replicate ((length ?docs + 999) div 1000) (Scroll ''ctx-1'' ''5m'')"
    by blast
  have "get_signals sim_env c space days s
      = Some (Inr (map signal_of_hit ?docs),
              \<lparr>trace = trace s2 @ [ClearScroll ''ctx-1''], world = (world s2)\<lparr>sim_pending := []\<rparr>\<rparr>)"
    using loop by (simp add: get_signals_def df search clear)
  moreover have "trace \<lparr>trace = trace s2 @ [ClearScroll ''ctx-1''], world = (world s2)\<lparr>sim_pending := []\<rparr>\<rparr>
      = trace s @ [Search ?req]
          @ replicate ((length ?docs + 999) div 1000) (Scroll ''ctx-1'' ''5m'')
          @ [ClearScroll ''ctx-1'']"
    using tr by simp
  ultimately show ?thesis by blast
qed

lemma sim_get_signals_scroll_fails:
  assumes "sim_scroll_fail_at (world s) = Some (sim_scrolls (world s))"
    and "sim_docs (world s) \<noteq> []"
  shows "get_signals sim_env c space days s
     = Some (Inl (LibError ''ConnectionTimeout''),
         \<lparr>trace = trace s @ [Search (signals_request space ''2024-04-01T12:00:00''),
                              Scroll ''ctx-1'' ''5m''],
          world = (world s)\<lparr>sim_pending := drop 1000 (sim_docs (world s)), sim_page := 1000,
                     sim_scrolls := sim_scrolls (world s) + 1\<rparr>\<rparr>)"
proof -
  let ?req = "signals_request space ''2024-04-01T12:00:00''"
  let ?docs = "sim_docs (world s)"
  let ?resp = "\<lparr>scroll_id = ''ctx-1'', hits = take 1000 ?docs\<rparr>"
  let ?s1 = "\<lparr>trace = trace s @ [Search ?req],
              world = (world s)\<lparr>sim_pending := drop 1000 ?docs, sim_page := 1000\<rparr>\<rparr>"
  have df: "date_from_isoformat sim_env days (world s) = ''2024-04-01T12:00:00''"
    by (simp add: sim_env_def)
  have search: "client_search sim_env c ?req s = (Inr ?resp, ?s1)"
    by (simp add: client_search_def sim_env_def sim_search_def emit_def signals_request_def)
  have "scroll_loop sim_env c ''ctx-1'' ?resp (map signal_of_hit (hits ?resp)) ?s1
      = Some (Inl (LibError ''ConnectionTimeout''),
         \<lparr>trace = trace s @ [Search ?req, Scroll ''ctx-1'' ''5m''],
          world = (world s)\<lparr>sim_pending := drop 1000 ?docs, sim_page := 1000,
                     sim_scrolls := sim_scrolls (world s) + 1\<rparr>\<rparr>)"
    using assms
    by (subst scroll_loop.simps) (simp add: client_scroll_def sim_env_def sim_scroll_def emit_def)
  then show ?thesis by (simp add: get_signals_def df search)
qed

lemma sim_get_all_detection_rules:
  assumes "length (sim_rules (world s)) < 100"
  shows "get_all_detection_rules sim_env k s
     = Some (Inr (sim_rules (world s)),
             \<lparr>trace = trace s @ [HttpGet (rules_request k 1 100)], world = world s\<rparr>)"
  unfolding get_all_detection_rules_def using assms
  by (subst rules_loop.simps)
     (simp add: requests_get_def sim_env_def emit_def raise_for_status_def exn_bind_def
        dict_index_def py_elements_def)

lemma sim_get_signals_one_page:
  assumes "sim_scroll_fail_at (world s) = None"
    and "sim_docs (world s) \<noteq> []" and "length (sim_docs (world s)) \<le> 1000"
  shows "get_signals sim_env c space days s
     = Some (Inr (map signal_of_hit (sim_docs (world s))),
         \<lparr>trace = trace s @ [Search (signals_request space ''2024-04-01T12:00:00''),
                              Scroll ''ctx-1'' ''5m'', ClearScroll ''ctx-1''],
          world = (world s)\<lparr>sim_pending := [], sim_page := 1000,
                     sim_scrolls := Suc (sim_scrolls (world s))\<rparr>\<rparr>)"
proof -
  let ?req = "signals_request space ''2024-04-01T12:00:00''"
  let ?docs = "sim_docs (world s)"
  let ?resp = "\<lparr>scroll_id = ''ctx-1'', hits = ?docs\<rparr>"
  let ?s1 = "\<lparr>trace = trace s @ [Search ?req],
              world = (world s)\<lparr>sim_pending := [], sim_page := 1000\<rparr>\<rparr>"
  let ?resp2 = "\<lparr>scroll_id = ''ctx-1'', hits = []\<rparr>"
  let ?s2 = "\<lparr>trace = trace s @ [Search ?req, Scroll ''ctx-1'' ''5m''],
              world = (world s)\<lparr>sim_pending := [], sim_page := 1000,
                 sim_scrolls := Suc (sim_scrolls (world s))\<rparr>\<rparr>"
  have df: "date_from_isoformat sim_env days (world s) = ''2024-04-01T12:00:00''"
    by (simp add: sim_env_def)
  have search: "client_search sim_env c ?req s = (Inr ?resp, ?s1)"
    using assms(3)
    by (simp add: client_search_def sim_env_def sim_search_def emit_def signals_request_def)
  have scroll: "client_scroll sim_env c ''ctx-1'' ''5m'' ?s1 = (Inr ?resp2, ?s2)"
    using assms(1) by (simp add: client_scroll_def sim_env_def sim_scroll_def emit_def)
  have last: "scroll_loop sim_env c ''ctx-1'' ?resp2 (map signal_of_hit ?docs) ?s2
      = Some (Inr (map signal_of_hit ?docs), ?s2)"
    by (subst scroll_loop.simps) simp
  have "scroll_loop sim_env c ''ctx-1'' ?resp (map signal_of_hit ?docs) ?s1
      = Some (Inr (map signal_of_hit ?docs), ?s2)"
    using assms(2) by (subst scroll_loop.simps) (simp add: scroll last)
  moreover have "client_clear_scroll sim_env c ''ctx-1'' ?s2
      = (Inr (), \<lparr>trace = trace ?s2 @ [ClearScroll ''ctx-1''],
                  world = (world ?s2)\<lparr>sim_pending := []\<rparr>\<rparr>)"
    by (simp add: client_clear_scroll_def sim_env_def emit_def)
  ultimately show ?thesis
    by (simp add: get_signals_def df search)
qed

lemma sim_main_two:
  "main sim_env sim_kibana sim_elastic sim_analyst
        (sim_start ((sim_world [alert ''alpha'', alert ''beta''])\<lparr>sim_chat_fail_at := [0]\<rparr>))
   = Some (Inr (), snd (the (main sim_env sim_kibana sim_elastic sim_analyst
        (sim_start ((sim_world [alert ''alpha'', alert ''beta''])\<lparr>sim_chat_fail_at := [0]\<rparr>)))))"
  by (simp add: main_def sim_get_all_detection_rules sim_get_signals_one_page sim_process_signal
      sim_start_def sim_world_def sim_print string_of_nat.simps)

section \<open>Pagination: claims C2 and C3\<close>

text \<open>
  C3, as amended. From a store that holds T matching records and serves them in pages
  of the size asked for (1000), with no call failing, \<open>get_signals\<close> returns exactly
  the T records, each once and in the store's order, after one search, exactly
  \<open>\<lceil>T/1000\<rceil>\<close> continuation calls and one release of the scroll context. The loop
  stops when a page comes back empty: after a page with at least one record, short or
  full, it asks for another page.
\<close>

theorem get_signals_pages:
  assumes "sim_scroll_fail_at (world s) = None"
  shows "(\<exists>s'. get_signals sim_env c space days s
            = Some (Inr (map signal_of_hit (sim_docs (world s))), s')
      \<and> trace s' = trace s
          @ [Search (signals_request space ''2024-04-01T12:00:00'')]
          @ replicate ((length (sim_docs (world s)) + 999) div 1000) (Scroll ''ctx-1'' ''5m'')
          @ [ClearScroll ''ctx-1''])
    \<and> (hits resp = [] \<longrightarrow> scroll_loop env c sid resp res st = Some (Inr res, st))
    \<and> (hits resp \<noteq> [] \<longrightarrow> scroll_loop env c sid resp res st
          = (case client_scroll env c sid ''5m'' st of
               (Inl e, s1) \<Rightarrow> Some (Inl e, s1)
             | (Inr resp1, s1) \<Rightarrow>
                 scroll_loop env c sid resp1 (res @ map signal_of_hit (hits resp1)) s1))"
proof (intro conjI impI)
  show "\<exists>s'. get_signals sim_env c space days s
            = Some (Inr (map signal_of_hit (sim_docs (world s))), s')
      \<and> trace s' = trace s
          @ [Search (signals_request space ''2024-04-01T12:00:00'')]
          @ replicate ((length (sim_docs (world s)) + 999) div 1000) (Scroll ''ctx-1'' ''5m'')
          @ [ClearScroll ''ctx-1'']"
    using assms by (rule sim_get_signals)
next
  assume "hits resp = []"
  then show "scroll_loop env c sid resp res st = Some (Inr res, st)"
    by (subst scroll_loop.simps) simp
next
  assume "hits resp \<noteq> []"
  then show "scroll_loop env c sid resp res st
          = (case client_scroll env c sid ''5m'' st of
               (Inl e, s1) \<Rightarrow> Some (Inl e, s1)
             | (Inr resp1, s1) \<Rightarrow>
                 scroll_loop env c sid resp1 (res @ map signal_of_hit (hits resp1)) s1)"
    by (subst scroll_loop.simps) simp
qed

theorem get_signals_pages_witness:
  "\<exists>s'. get_signals sim_env sim_elastic ''soc'' 30
            (sim_start (sim_world [alert ''a1'', alert ''a2'']))
          = Some (Inr [signal_of_hit (alert ''a1''), signal_of_hit (alert ''a2'')], s')
      \<and> trace s' = [Search (signals_request ''soc'' ''2024-04-01T12:00:00''),
                     Scroll ''ctx-1'' ''5m'', ClearScroll ''ctx-1'']"
proof -
  have "sim_scroll_fail_at (world (sim_start (sim_world [alert ''a1'', alert ''a2'']))) = None"
    by (simp add: sim_start_def sim_world_def)
  from get_signals_pages [OF this, THEN conjunct1, of sim_elastic "''soc''" 30]
  show ?thesis by (simp add: sim_start_def sim_world_def)
qed

text \<open>
  C3 as stated fails on the stopping rule: with one record in the store the first page
  holds 1 record, fewer than the 1000 asked for, and a continuation call still follows.
\<close>

theorem short_page_counterexample:
  "map_option (scroll_calls \<circ> trace \<circ> snd)
     (get_signals sim_env sim_elastic ''soc'' 30 (sim_start (sim_world [alert ''a1''])))
   = Some [''ctx-1'']
   \<and> length (take (sr_size (signals_request ''soc'' ''2024-04-01T12:00:00''))
                 (sim_docs (sim_world [alert ''a1''])))
       < sr_size (signals_request ''soc'' ''2024-04-01T12:00:00'')"
  by (simp add: sim_get_signals_one_page sim_start_def sim_world_def signals_request_def)

text \<open>
  C2, the failing input. The store holds one record and the first continuation call
  raises. \<open>get_signals\<close> propagates the error after a search and a scroll call; the
  scroll context is never released, whereas the claim asks for exactly one release on
  this path too. (On the path where no call raises, the context is released exactly
  once: \<open>get_signals_trace\<close>.)
\<close>

theorem scroll_context_not_released_on_error:
  "map_option fst
     (get_signals sim_env sim_elastic ''soc'' 30
        (sim_start ((sim_world [alert ''a1''])\<lparr>sim_scroll_fail_at := Some 0\<rparr>)))
   = Some (Inl (LibError ''ConnectionTimeout''))
   \<and> map_option (trace \<circ> snd)
     (get_signals sim_env sim_elastic ''soc'' 30
        (sim_start ((sim_world [alert ''a1''])\<lparr>sim_scroll_fail_at := Some 0\<rparr>)))
   = Some [Search (signals_request ''soc'' ''2024-04-01T12:00:00''), Scroll ''ctx-1'' ''5m'']
   \<and> map_option (clear_scroll_calls \<circ> trace \<circ> snd)
     (get_signals sim_env sim_elastic ''soc'' 30
        (sim_start ((sim_world [alert ''a1''])\<lparr>sim_scroll_fail_at := Some 0\<rparr>)))
   = Some []"
  by (simp add: sim_get_signals_scroll_fails sim_start_def sim_world_def)

section \<open>What a run reports: claim C9\<close>

text \<open>
  C9, as amended. Take a run of \<open>main\<close> that ends, on a standard output that accepts
  every line. If the rule listing raises, the run ends with that error and has printed
  nothing. Otherwise its first line is the count of the rules that were listed. If the
  fetch of the alerts raises, the run ends with that error and this is its only line.
  Otherwise the run ends normally and its output is exactly: the count of the rules
  listed, the count of the alert records fetched, then the Run Summary of the
  specification over those records, one line per record in their order, the success
  marker with the record's id or the failure marker with the record's id and the text
  of the error that record raised. Nothing follows: the run prints no count of
  annotated alerts and no closing enumeration of the failures.
\<close>

theorem main_report:
  assumes "main env k e a s = Some (r, s')"
    and "\<forall>line w. fst (stdout_write env line w) = Inr ()"
  shows "\<exists>evs. trace s' = trace s @ evs \<and>
    (case get_all_detection_rules env k s of
       None \<Rightarrow> False
     | Some (Inl ex, s1) \<Rightarrow> r = Inl ex \<and> printed_lines evs = []
     | Some (Inr rules, s1) \<Rightarrow>
        (case get_signals env e ''soc'' 30
                (snd (py_print env (''Found '' @ string_of_nat (length rules) @ '' rules'') s1)) of
           None \<Rightarrow> False
         | Some (Inl ex, s3) \<Rightarrow>
             r = Inl ex
             \<and> printed_lines evs = [''Found '' @ string_of_nat (length rules) @ '' rules'']
         | Some (Inr signals, s3) \<Rightarrow>
             r = Inr ()
             \<and> (\<exists>hs::hit list. signals = map signal_of_hit hs)
             \<and> (\<forall>hs. signals = map signal_of_hit hs \<longrightarrow>
                  printed_lines evs
                  = [''Found '' @ string_of_nat (length rules) @ '' rules'',
                     ''Found '' @ string_of_nat (length signals) @ '' signals'']
                    @ map (outcome_line env) (spec_run_summary env k a hs
                        (snd (py_print env
                           (''Found '' @ string_of_nat (length signals) @ '' signals'') s3))))))"
proof -
  note ok = assms(2)
  have "get_all_detection_rules env k s \<noteq> None"
  proof
    assume "get_all_detection_rules env k s = None"
    with assms(1) show False by (simp add: main_def)
  qed
  then obtain r1 s1 where g1: "get_all_detection_rules env k s = Some (r1, s1)"
    by (cases "get_all_detection_rules env k s") auto
  from rules_loop_trace [OF g1 [unfolded get_all_detection_rules_def]] obtain evs1 where
    t1: "trace s1 = trace s @ evs1" and p1: "printed_lines evs1 = []"
    by auto
  show ?thesis
  proof (cases r1)
    case (Inl ex)
    with assms(1) g1 have "r = Inl ex" "s' = s1" by (simp_all add: main_def)
    with t1 p1 have F: "trace s' = trace s @ evs1 \<and> r = Inl ex \<and> printed_lines evs1 = []"
      by simp
    show ?thesis
      apply (rule exI [of _ evs1])
      apply (simp only: g1 Inl option.case prod.case sum.case)
      apply (rule F)
      done
  next
    case (Inr rules)
    let ?l1 = "''Found '' @ string_of_nat (length rules) @ '' rules''"
    let ?s2 = "snd (py_print env ?l1 s1)"
    obtain q2 s2 where pp2: "py_print env ?l1 s1 = (q2, s2)"
      by (cases "py_print env ?l1 s1")
    from py_print_ok [OF ok, of ?l1 s1] pp2
    have q2: "q2 = Inr ()" and t2': "trace ?s2 = trace s1 @ [Print ?l1]"
      by simp_all
    have t2: "trace ?s2 = trace s @ (evs1 @ [Print ?l1])"
      using t1 t2' by simp
    have m: "main env k e a s =
        (case get_signals env e ''soc'' 30 ?s2 of
           None \<Rightarrow> None
         | Some (Inl ex, s3) \<Rightarrow> Some (Inl ex, s3)
         | Some (Inr signals, s3) \<Rightarrow>
             (case py_print env (''Found '' @ string_of_nat (length signals) @ '' signals'') s3 of
                (Inl ex, s4) \<Rightarrow> Some (Inl ex, s4)
              | (Inr u, s4) \<Rightarrow> Some (process_signals env k a signals s4)))"
      unfolding main_def
      by (simp only: g1 Inr pp2 q2 option.case prod.case sum.case snd_conv)
    have "get_signals env e ''soc'' 30 ?s2 \<noteq> None"
    proof
      assume "get_signals env e ''soc'' 30 ?s2 = None"
      with assms(1) m show False by simp
    qed
    then obtain r3 s3 where
      g3: "get_signals env e ''soc'' 30 ?s2 = Some (r3, s3)"
      by (cases "get_signals env e ''soc'' 30 ?s2") auto
    from get_signals_trace [OF g3] obtain evs3 where
      t3: "trace s3 = trace ?s2 @ evs3" and p3: "printed_lines evs3 = []"
      and f3: "\<forall>sigs. r3 = Inr sigs \<longrightarrow> (\<exists>hs. sigs = map signal_of_hit hs)"
      by blast
    show ?thesis
    proof (cases r3)
      case (Inl ex)
      with assms(1) m g3 have "r = Inl ex" "s' = s3" by simp_all
      moreover from t2 t3 have "trace s3 = trace s @ (evs1 @ [Print ?l1] @ evs3)" by simp
      moreover have "printed_lines (evs1 @ [Print ?l1] @ evs3) = [?l1]" using p1 p3 by simp
      ultimately have F: "trace s' = trace s @ (evs1 @ [Print ?l1] @ evs3)
          \<and> r = Inl ex \<and> printed_lines (evs1 @ [Print ?l1] @ evs3) = [?l1]"
        by simp
      show ?thesis
        apply (rule exI [of _ "evs1 @ [Print ?l1] @ evs3"])
        apply (simp only: g1 \<open>r1 = Inr rules\<close> g3 Inl option.case prod.case sum.case)
        apply (rule F)
        done
    next
      case r3: (Inr signals)
      with f3 obtain hs0 :: "hit list" where hs0: "signals = map signal_of_hit hs0" by blast
      let ?l2 = "''Found '' @ string_of_nat (length signals) @ '' signals''"
      let ?s4 = "snd (py_print env ?l2 s3)"
      obtain q4 s4 where pp4: "py_print env ?l2 s3 = (q4, s4)"
        by (cases "py_print env ?l2 s3")
      from py_print_ok [OF ok, of ?l2 s3] pp4
      have q4: "q4 = Inr ()" and t4': "trace ?s4 = trace s3 @ [Print ?l2]"
        by simp_all
      have t4: "trace ?s4 = trace s @ (evs1 @ [Print ?l1] @ evs3 @ [Print ?l2])"
        using t2 t3 t4' by simp
      have "main env k e a s = Some (process_signals env k a signals s4)"
        unfolding m by (simp only: g3 r3 pp4 q4 option.case prod.case sum.case)
      with assms(1) have "process_signals env k a signals s4 = (r, s')" by simp
      moreover have "?s4 = s4" by (simp only: pp4 snd_conv)
      ultimately have run: "process_signals env k a signals ?s4 = (r, s')" by simp
      from process_signals_summary [OF ok, of k a hs0 ?s4] run hs0
      obtain evs5 where r: "r = Inr ()" and t5: "trace s' = trace ?s4 @ evs5"
        by auto
      let ?evs = "evs1 @ [Print ?l1] @ evs3 @ [Print ?l2] @ evs5"
      from t4 t5 have A: "trace s' = trace s @ ?evs"
        by simp
      have E: "\<exists>hs::hit list. signals = map signal_of_hit hs"
        using hs0 by blast
      have U: "\<forall>hs. signals = map signal_of_hit hs \<longrightarrow>
                  printed_lines ?evs = [?l1, ?l2]
                    @ map (outcome_line env) (spec_run_summary env k a hs ?s4)"
      proof (intro allI impI)
        fix hs :: "hit list"
        assume hs: "signals = map signal_of_hit hs"
        from process_signals_summary [OF ok, of k a hs ?s4] run hs
        obtain evs where t: "trace s' = trace ?s4 @ evs"
          and l: "printed_lines evs = map (outcome_line env) (spec_run_summary env k a hs ?s4)"
          by auto
        from t t5 have "evs = evs5" by simp
        with l p1 p3 show "printed_lines ?evs = [?l1, ?l2]
                    @ map (outcome_line env) (spec_run_summary env k a hs ?s4)"
          by simp
      qed
      from A r E U have F: "trace s' = trace s @ ?evs \<and> r = Inr ()
          \<and> (\<exists>hs::hit list. signals = map signal_of_hit hs)
          \<and> (\<forall>hs. signals = map signal_of_hit hs \<longrightarrow>
                  printed_lines ?evs = [?l1, ?l2]
                    @ map (outcome_line env) (spec_run_summary env k a hs ?s4))"
        by (intro conjI)
      show ?thesis
        apply (rule exI [of _ ?evs])
        apply (simp only: g1 \<open>r1 = Inr rules\<close> g3 r3 option.case prod.case sum.case)
        apply (rule F)
        done
    qed
  qed
qed

theorem main_report_witness:
  "(\<forall>line w. fst (stdout_write sim_env line w) = Inr ())
   \<and> (\<exists>s'. main sim_env sim_kibana sim_elastic sim_analyst
        (sim_start ((sim_world [alert ''alpha'', alert ''beta''])\<lparr>sim_chat_fail_at := [0]\<rparr>))
      = Some (Inr (), s')
    \<and> printed_lines (trace s')
      = [''Found 0 rules'', ''Found 2 signals'']
        @ map (outcome_line sim_env)
            [Failed (JStr ''alpha'') (LibError ''rate limit exceeded''),
             Annotated (JStr ''beta'')])"
proof -
  let ?w = "(sim_world [alert ''alpha'', alert ''beta''])\<lparr>sim_chat_fail_at := [0]\<rparr>"
  let ?s0 = "sim_start ?w"
  let ?s' = "snd (the (main sim_env sim_kibana sim_elastic sim_analyst ?s0))"
  let ?s1 = "\<lparr>trace = [HttpGet (rules_request sim_kibana 1 100)], world = ?w\<rparr>"
  let ?l1 = "''Found '' @ string_of_nat (length ([]::json list)) @ '' rules''"
  let ?sigs = "map signal_of_hit [alert ''alpha'', alert ''beta'']"
  let ?l2 = "''Found '' @ string_of_nat (length ?sigs) @ '' signals''"
  let ?s3 = "\<lparr>trace = [HttpGet (rules_request sim_kibana 1 100), Print ''Found 0 rules'',
                       Search (signals_request ''soc'' ''2024-04-01T12:00:00''),
                       Scroll ''ctx-1'' ''5m'', ClearScroll ''ctx-1''],
              world = ?w\<lparr>sim_pending := [], sim_page := 1000, sim_scrolls := Suc 0\<rparr>\<rparr>"
  have g1: "get_all_detection_rules sim_env sim_kibana ?s0 = Some (Inr [], ?s1)"
    by (simp add: sim_get_all_detection_rules sim_start_def sim_world_def)
  have g3: "get_signals sim_env sim_elastic ''soc'' 30 (snd (py_print sim_env ?l1 ?s1))
      = Some (Inr ?sigs, ?s3)"
    by (simp add: sim_print sim_get_signals_one_page sim_world_def string_of_nat.simps)
  have sm: "spec_run_summary sim_env sim_kibana sim_analyst [alert ''alpha'', alert ''beta'']
        (snd (py_print sim_env ?l2 ?s3))
     = [Failed (JStr ''alpha'') (LibError ''rate limit exceeded''), Annotated (JStr ''beta'')]"
    by (simp add: sim_analyze sim_add_note sim_print hit_id_alert sim_world_def)
  note c0 = main_report [OF sim_main_two sim_stdout_ok,
      unfolded g1 option.case prod.case sum.case g3]
  from c0 obtain evs where t: "trace ?s' = trace ?s0 @ evs"
    and c: "\<forall>hs. ?sigs = map signal_of_hit hs \<longrightarrow>
       printed_lines evs = [?l1, ?l2]
         @ map (outcome_line sim_env) (spec_run_summary sim_env sim_kibana sim_analyst hs
             (snd (py_print sim_env ?l2 ?s3)))"
    by (elim exE conjE)
  from c [rule_format, OF refl] sm
  have "printed_lines evs = [''Found 0 rules'', ''Found 2 signals'']
        @ map (outcome_line sim_env)
            [Failed (JStr ''alpha'') (LibError ''rate limit exceeded''),
             Annotated (JStr ''beta'')]"
    by (simp add: string_of_nat.simps)
  moreover from t have "trace ?s' = evs" by (simp add: sim_start_def)
  ultimately have l: "printed_lines (trace ?s')
      = [''Found 0 rules'', ''Found 2 signals'']
        @ map (outcome_line sim_env)
            [Failed (JStr ''alpha'') (LibError ''rate limit exceeded''),
             Annotated (JStr ''beta'')]"
    by simp
  show ?thesis
    apply (rule conjI [OF sim_stdout_ok])
    apply (rule exI [of _ ?s'])
    apply (rule conjI [OF sim_main_two l])
    done
qed

text \<open>
  C9 as stated fails: this is the whole output of a run over two alerts of which the
  first fails. It ends with the line of the last alert, and no line gives the number of
  alerts annotated.
\<close>

theorem no_annotated_count_counterexample:
  "map_option (printed_lines \<circ> trace \<circ> snd)
     (main sim_env sim_kibana sim_elastic sim_analyst
        (sim_start ((sim_world [alert ''alpha'', alert ''beta''])\<lparr>sim_chat_fail_at := [0]\<rparr>)))
   = Some [''Found 0 rules'', ''Found 2 signals'',
           cross_mark @ '' Error processing signal alpha: rate limit exceeded'',
           check_mark @ '' Processed signal beta'']"
  by (simp add: main_def sim_get_all_detection_rules sim_get_signals_one_page sim_process_signal
      sim_start_def sim_world_def sim_print success_line_def failure_line_def
      py_format_def string_of_nat.simps)

section \<open>Determinism of the prompt: claim C7\<close>

text \<open>
  C7. The prompt is a function of the alert record alone: it does not depend on the
  analyst object that builds it (model, temperature, key, log file), and it reads no
  clock, no file and no service. So two calls with the same record give the same text,
  and two invocations of \<open>analyze_signal\<close> on the same record, from any two states of
  the world, send the same request whenever both reach the analysis service.
\<close>

theorem prompt_deterministic:
  "create_signal_prompt env self1 signal = create_signal_prompt env self2 signal
   \<and> (analyze_signal env self signal s1 = (r1, t1) \<longrightarrow>
      analyze_signal env self signal s2 = (r2, t2) \<longrightarrow>
      (\<exists>evs1 evs2. trace t1 = trace s1 @ evs1 \<and> trace t2 = trace s2 @ evs2
         \<and> (chat_requests evs1 = [] \<or> chat_requests evs2 = []
            \<or> chat_requests evs1 = chat_requests evs2)))"
proof (intro conjI impI)
  show "create_signal_prompt env self1 signal = create_signal_prompt env self2 signal"
    by (simp add: create_signal_prompt_def)
next
  assume a1: "analyze_signal env self signal s1 = (r1, t1)"
    and a2: "analyze_signal env self signal s2 = (r2, t2)"
  from analyze_signal_trace [OF a1] obtain evs1 where
    e1: "trace t1 = trace s1 @ evs1"
    and c1: "chat_requests evs1 = [] \<or>
        (\<exists>p. create_signal_prompt env self signal = Inr p
             \<and> chat_requests evs1 = [analysis_request self p])"
    by blast
  from analyze_signal_trace [OF a2] obtain evs2 where
    e2: "trace t2 = trace s2 @ evs2"
    and c2: "chat_requests evs2 = [] \<or>
        (\<exists>p. create_signal_prompt env self signal = Inr p
             \<and> chat_requests evs2 = [analysis_request self p])"
    by blast
  from c1 c2 have "chat_requests evs1 = [] \<or> chat_requests evs2 = []
            \<or> chat_requests evs1 = chat_requests evs2"
    by auto
  with e1 e2 show "\<exists>evs1 evs2. trace t1 = trace s1 @ evs1 \<and> trace t2 = trace s2 @ evs2
         \<and> (chat_requests evs1 = [] \<or> chat_requests evs2 = []
            \<or> chat_requests evs1 = chat_requests evs2)"
    by blast
qed

theorem prompt_deterministic_witness:
  "create_signal_prompt sim_env (AISecurityAnalyst_init ''k1'' None None) (signal_of_hit (alert ''a1''))
   = create_signal_prompt sim_env (AISecurityAnalyst_init ''k2'' (Some ''gpt-4'') (Some 1))
       (signal_of_hit (alert ''a1''))
   \<and> chat_requests (trace (snd (analyze_signal sim_env sim_analyst (signal_of_hit (alert ''a1''))
         (sim_start (sim_world [])))))
     = chat_requests (trace (snd (analyze_signal sim_env sim_analyst (signal_of_hit (alert ''a1''))
         (sim_start ((sim_world [alert ''a9''])\<lparr>sim_chats := 7, sim_chat_fail_at := [7]\<rparr>)))))
   \<and> (\<exists>evs1 evs2.
        trace (snd (analyze_signal sim_env sim_analyst (signal_of_hit (alert ''a1''))
           (sim_start (sim_world []))))
          = trace (sim_start (sim_world [])) @ evs1
      \<and> trace (snd (analyze_signal sim_env sim_analyst (signal_of_hit (alert ''a1''))
           (sim_start ((sim_world [alert ''a9''])\<lparr>sim_chats := 7, sim_chat_fail_at := [7]\<rparr>))))
          = trace (sim_start ((sim_world [alert ''a9''])\<lparr>sim_chats := 7, sim_chat_fail_at := [7]\<rparr>))
            @ evs2
      \<and> (chat_requests evs1 = [] \<or> chat_requests evs2 = []
            \<or> chat_requests evs1 = chat_requests evs2))"
proof -
  let ?sig = "signal_of_hit (alert ''a1'')"
  let ?s1 = "sim_start (sim_world [])"
  let ?s2 = "sim_start ((sim_world [alert ''a9''])\<lparr>sim_chats := 7, sim_chat_fail_at := [7]\<rparr>)"
  let ?run1 = "analyze_signal sim_env sim_analyst ?sig ?s1"
  let ?run2 = "analyze_signal sim_env sim_analyst ?sig ?s2"
  have h1: "?run1 = (fst ?run1, snd ?run1)" by (rule prod.collapse [symmetric])
  have h2: "?run2 = (fst ?run2, snd ?run2)" by (rule prod.collapse [symmetric])
  note d = prompt_deterministic [of sim_env "AISecurityAnalyst_init ''k1'' None None" ?sig
      "AISecurityAnalyst_init ''k2'' (Some ''gpt-4'') (Some 1)" sim_analyst ?s1
      "fst ?run1" "snd ?run1" ?s2 "fst ?run2" "snd ?run2"]
  from d have a: "create_signal_prompt sim_env (AISecurityAnalyst_init ''k1'' None None) ?sig
      = create_signal_prompt sim_env (AISecurityAnalyst_init ''k2'' (Some ''gpt-4'') (Some 1)) ?sig"
    by (rule conjunct1)
  have b: "chat_requests (trace (snd ?run1)) = chat_requests (trace (snd ?run2))"
    by (simp add: sim_analyze sim_start_def sim_world_def)
  from d [THEN conjunct2, THEN mp, OF h1, THEN mp, OF h2]
  have c: "\<exists>evs1 evs2. trace (snd ?run1) = trace ?s1 @ evs1 \<and> trace (snd ?run2) = trace ?s2 @ evs2
      \<and> (chat_requests evs1 = [] \<or> chat_requests evs2 = []
            \<or> chat_requests evs1 = chat_requests evs2)" .
  from a b c show ?thesis by (intro conjI)
qed

end
